theory Spec2Isabelle
  imports Complex_Main "HOL-Library.Word" "HOL-Library.Sublist" "HOL-Library.Multiset"
begin

section \<open>JavaScript strings\<close>

text \<open>
  A JavaScript string is a sequence of 16-bit UTF-16 code units, and \<open>includes\<close>,
  \<open>split\<close>, \<open>trim\<close> and \<open>length\<close> all work on code units. The ASCII literals of the
  source are written \<open>js ''...''\<close>; the emoji of the dashboard are given by their code
  units.
\<close>

type_synonym jsstring = "16 word list"

definition js :: "string \<Rightarrow> jsstring" where
  "js s = map (\<lambda>c. of_nat (of_char c)) s"

text \<open>\<open>haystack.includes(needle)\<close>: the needle occurs as a contiguous run.\<close>

fun js_includes :: "jsstring \<Rightarrow> jsstring \<Rightarrow> bool" where
  "js_includes [] needle = (needle = [])"
| "js_includes (c # cs) needle = (prefix needle (c # cs) \<or> js_includes cs needle)"

text \<open>
  The code units that \<open>String.prototype.trim\<close> strips: ECMAScript's WhiteSpace and
  LineTerminator productions (all of them in the Basic Multilingual Plane).
\<close>

definition isWhiteSpace :: "16 word \<Rightarrow> bool" where
  "isWhiteSpace c =
     (c = 0x0009 \<or> c = 0x000A \<or> c = 0x000B \<or> c = 0x000C \<or> c = 0x000D \<or> c = 0x0020
      \<or> c = 0x00A0 \<or> c = 0x1680 \<or> (0x2000 \<le> c \<and> c \<le> 0x200A) \<or> c = 0x2028
      \<or> c = 0x2029 \<or> c = 0x202F \<or> c = 0x205F \<or> c = 0x3000 \<or> c = 0xFEFF)"

definition js_trim :: "jsstring \<Rightarrow> jsstring" where
  "js_trim s = rev (dropWhile isWhiteSpace (rev (dropWhile isWhiteSpace s)))"

definition newline :: "16 word" where
  "newline = 0x000A"

text \<open>
  \<open>s.split('\n')\<close>: the segments between the newlines; a string without a newline is
  one segment, and the empty string gives the one empty segment.
\<close>

fun split_nl :: "jsstring \<Rightarrow> jsstring list" where
  "split_nl [] = [[]]"
| "split_nl (c # cs) =
     (if c = newline then [] # split_nl cs
      else (c # hd (split_nl cs)) # tl (split_nl cs))"

section \<open>Incident statistics (\<open>src/app/api/stats/route.ts\<close>)\<close>

text \<open>
  The records of \<open>src/types/index.ts\<close>. JavaScript numbers are idealised as reals in
  the averages; the time of a \<open>detected_at\<close> string is what \<open>new Date(...)\<close> makes of
  it, taken as the parameter \<open>getTime\<close> (\<open>None\<close> for an invalid date, whose
  comparisons are all false).
\<close>

datatype up_down = UP | DOWN | UNKNOWN

record Diagnosis =
  diag_status :: up_down
  reason :: jsstring
  detailed_diagnosis :: "jsstring option"
  confidence :: real

record Action =
  repair_attempted :: bool
  repair_action :: jsstring
  repair_success :: bool
  repair_output :: jsstring

record Verification =
  verified :: bool
  verification_response :: jsstring
  post_repair_status :: up_down

record Metadata =
  nginx_logs_length :: nat
  health_check_successful :: bool
  workflow_completed :: bool

record FlashcardIncident =
  detected_at :: jsstring
  diagnosis :: Diagnosis
  action :: Action
  verification :: Verification
  metadata :: Metadata

record SystemStats =
  uptimePercentage :: real
  averageRepairTime :: real
  incidentsLast24h :: nat
  averageConfidence :: real

definition calculateStats ::
  "(jsstring \<Rightarrow> int option) \<Rightarrow> int \<Rightarrow> FlashcardIncident list \<Rightarrow> SystemStats" where
  "calculateStats getTime now incidents =
     (if length incidents = 0 then
        \<lparr>uptimePercentage = 100, averageRepairTime = 0,
         incidentsLast24h = 0, averageConfidence = 0\<rparr>
      else
        let oneDayAgo = now - 24 * 60 * 60 * 1000;
            last24h = length (filter (\<lambda>incident.
                         case getTime (detected_at incident) of
                           None \<Rightarrow> False
                         | Some t \<Rightarrow> t \<ge> oneDayAgo) incidents);
            downIncidents = filter (\<lambda>incident. diag_status (diagnosis incident) = DOWN) incidents;
            totalDowntimeMinutes = real (length downIncidents) * 1;
            totalPeriodMinutes = 30 * 24 * 60;
            uptime = max 0 (100 - (totalDowntimeMinutes / totalPeriodMinutes * 100));
            repairedIncidents = filter (\<lambda>incident.
                         repair_attempted (action incident) \<and> repair_success (action incident))
                         incidents;
            repairTime =
              (if length repairedIncidents > 0
               then foldl (\<lambda>sum incident. sum + (1 - confidence (diagnosis incident)) * 30)
                      0 repairedIncidents / real (length repairedIncidents)
               else 0);
            avgConfidence =
              (if length incidents > 0
               then foldl (\<lambda>sum incident. sum + confidence (diagnosis incident)) 0 incidents
                      / real (length incidents)
               else 0)
        in \<lparr>uptimePercentage = uptime, averageRepairTime = repairTime,
            incidentsLast24h = last24h, averageConfidence = avgConfidence\<rparr>)"

section \<open>Crash-test supervisor (\<open>src/app/api/crash-test/route.ts\<close>)\<close>

text \<open>
  A \<open>ChildProcess\<close> object as far as the routes read it: its pid (undefined when the
  spawn did not produce a process) and its \<open>killed\<close> flag, which Node sets when
  \<open>kill\<close> has delivered a signal.
\<close>

record ChildProcess =
  pid :: "nat option"
  killed :: bool

record Crash =
  time :: int
  crash_method :: string
  description :: string

record NextCrash =
  nc_time :: int
  nc_method :: string
  nc_description :: string
  timeUntil :: int

definition crashSchedule :: "Crash list" where
  "crashSchedule =
     [\<lparr>time = 15, crash_method = ''stop'', description = ''PM2 Stop''\<rparr>,
      \<lparr>time = 60, crash_method = ''kill'', description = ''Process Kill''\<rparr>,
      \<lparr>time = 120, crash_method = ''stop'', description = ''PM2 Stop''\<rparr>]"

text \<open>
  \<open>testStartTime ? Math.floor((Date.now() - testStartTime) / 1000) : 0\<close>; a start time
  of 0 is falsy like \<open>null\<close>. Times are integers of milliseconds, on which the floored
  quotient is \<open>div\<close>.
\<close>

definition elapsedTime :: "int \<Rightarrow> int option \<Rightarrow> int" where
  "elapsedTime now testStartTime =
     (case testStartTime of
        None \<Rightarrow> 0
      | Some t \<Rightarrow> if t = 0 then 0 else (now - t) div 1000)"

text \<open>
  The loop over the schedule, with \<open>nextCrash\<close> and \<open>completedCrashes\<close> as its
  state.
\<close>

fun crash_loop :: "int \<Rightarrow> Crash list \<Rightarrow> Crash option \<times> Crash list \<Rightarrow> Crash option \<times> Crash list"
  where
  "crash_loop e [] acc = acc"
| "crash_loop e (crash # rest) (nextCrash, completedCrashes) =
     (if e \<ge> time crash then crash_loop e rest (nextCrash, completedCrashes @ [crash])
      else if nextCrash = None then crash_loop e rest (Some crash, completedCrashes)
      else crash_loop e rest (nextCrash, completedCrashes))"

text \<open>\<open>x?.pid || null\<close>: a missing process, a missing pid and the pid 0 all give null.\<close>

definition pid_or_null :: "ChildProcess option \<Rightarrow> nat option" where
  "pid_or_null p =
     (case p of
        None \<Rightarrow> None
      | Some c \<Rightarrow> (case pid c of None \<Rightarrow> None | Some n \<Rightarrow> if n = 0 then None else Some n))"

definition schedule_status :: "int \<Rightarrow> NextCrash option \<times> Crash list" where
  "schedule_status e =
     (case crash_loop e crashSchedule (None, []) of
        (nextCrash, completedCrashes) \<Rightarrow>
          (case nextCrash of
             None \<Rightarrow> None
           | Some c \<Rightarrow> Some \<lparr>nc_time = time c, nc_method = crash_method c,
                             nc_description = description c, timeUntil = time c - e\<rparr>,
           completedCrashes))"

record CrashStatus =
  isRunning :: bool
  cs_elapsedTime :: int
  nextCrash :: "NextCrash option"
  completedCrashes :: "Crash list"
  totalDuration :: int
  cs_pid :: "nat option"

definition crash_status :: "int \<Rightarrow> ChildProcess option \<Rightarrow> int option \<Rightarrow> CrashStatus" where
  "crash_status now activeTestProcess testStartTime =
     (let running = (case activeTestProcess of None \<Rightarrow> False | Some p \<Rightarrow> \<not> killed p);
          e = elapsedTime now testStartTime
      in \<lparr>isRunning = running, cs_elapsedTime = e,
          nextCrash = fst (schedule_status e),
          completedCrashes = snd (schedule_status e),
          totalDuration = 150,
          cs_pid = pid_or_null activeTestProcess\<rparr>)"

section \<open>Agent dashboard state (\<open>src/components/AgentWorkflowDashboard.tsx\<close>)\<close>

text \<open>
  The React state of the component: the agents, the server log, the server status and
  the current workflow label. Times are milliseconds on the component's clock, which
  stands for \<open>new Date().toISOString()\<close>. The pending \<open>setTimeout\<close> callbacks are
  kept with the time at which they are due.
\<close>

datatype agent_state = Idle | Working | Completed | Error

record AgentStatus =
  agent_id :: jsstring
  name :: jsstring
  status :: agent_state
  currentTask :: "jsstring option"
  lastUpdate :: "nat option"
  agent_output :: "jsstring list option"

text \<open>
  \<open>Partial<AgentStatus>\<close>: every property may be absent. A property that is present
  holds a value of its type.
\<close>

record AgentUpdates =
  upd_id :: "jsstring option"
  upd_name :: "jsstring option"
  upd_status :: "agent_state option"
  upd_currentTask :: "jsstring option"
  upd_lastUpdate :: "nat option"
  upd_output :: "jsstring list option"

datatype log_level = Info | Warn | Err | Success

record ServerLog =
  timestamp :: nat
  level :: log_level
  message :: jsstring
  agent :: "jsstring option"

datatype server_state = SrvUp | SrvDown | SrvUnknown

text \<open>The \<open>setTimeout\<close> callbacks of the component, one constructor for each.\<close>

datatype timer =
    RawPrepareExecutor
  | RawCompleteExecutor
  | RawWorkflowComplete
  | RawReset
  | LogReset
  | LogDiagnosisNext bool
  | LogRepairDone
  | LogExecutorIdle
  | LogEvaluationDone
  | LogFetchFlashcards

record dashboard =
  agents :: "AgentStatus list"
  serverLogs :: "ServerLog list"
  isMonitoring :: bool
  serverStatus :: server_state
  currentWorkflow :: "jsstring option"
  timers :: "(nat \<times> timer) list"
  clock :: nat

definition emoji_robot :: jsstring where
  "emoji_robot = [0xD83E, 0xDD16]"

definition emoji_alarm :: jsstring where
  "emoji_alarm = [0xD83D, 0xDEA8]"

definition emoji_check :: jsstring where
  "emoji_check = [0x2705]"

definition emoji_wrench :: jsstring where
  "emoji_wrench = [0xD83D, 0xDD27]"

definition emoji_boom :: jsstring where
  "emoji_boom = [0xD83D, 0xDCA5]"

definition initial_agents :: "AgentStatus list" where
  "initial_agents =
     [\<lparr>agent_id = js ''supervisor'', name = js ''Supervisor Agent'', status = Idle,
       currentTask = Some (js ''Monitoring server health...''), lastUpdate = None,
       agent_output = Some []\<rparr>,
      \<lparr>agent_id = js ''executor'', name = js ''Executor Agent'', status = Idle,
       currentTask = Some (js ''Awaiting repair instructions...''), lastUpdate = None,
       agent_output = Some []\<rparr>,
      \<lparr>agent_id = js ''evaluator'', name = js ''Evaluator Agent'', status = Idle,
       currentTask = Some (js ''Ready to verify repairs...''), lastUpdate = None,
       agent_output = Some []\<rparr>]"

definition dashboard_init :: dashboard where
  "dashboard_init =
     \<lparr>agents = initial_agents, serverLogs = [], isMonitoring = False,
      serverStatus = SrvUnknown, currentWorkflow = None, timers = [], clock = 0\<rparr>"

definition getIdleTask :: "jsstring \<Rightarrow> jsstring" where
  "getIdleTask agentId =
     (if agentId = js ''supervisor'' then js ''Monitoring server health...''
      else if agentId = js ''executor'' then js ''Awaiting repair instructions...''
      else if agentId = js ''evaluator'' then js ''Ready to verify repairs...''
      else js ''Idle'')"

text \<open>The spread \<open>{ ...agent, ...updates, lastUpdate: now }\<close>.\<close>

definition spread_updates :: "nat \<Rightarrow> AgentStatus \<Rightarrow> AgentUpdates \<Rightarrow> AgentStatus" where
  "spread_updates now a u =
     \<lparr>agent_id = (case upd_id u of None \<Rightarrow> agent_id a | Some v \<Rightarrow> v),
      name = (case upd_name u of None \<Rightarrow> name a | Some v \<Rightarrow> v),
      status = (case upd_status u of None \<Rightarrow> status a | Some v \<Rightarrow> v),
      currentTask = (case upd_currentTask u of None \<Rightarrow> currentTask a | Some v \<Rightarrow> Some v),
      lastUpdate = Some now,
      agent_output = (case upd_output u of None \<Rightarrow> agent_output a | Some v \<Rightarrow> Some v)\<rparr>"

definition updateAgentStatus ::
  "nat \<Rightarrow> jsstring \<Rightarrow> AgentUpdates \<Rightarrow> AgentStatus list \<Rightarrow> AgentStatus list" where
  "updateAgentStatus now agentId updates prev =
     map (\<lambda>a. if agent_id a = agentId then spread_updates now a updates else a) prev"

text \<open>The updates object \<open>{ status, currentTask }\<close> that every call site passes.\<close>

definition status_task :: "agent_state \<Rightarrow> jsstring \<Rightarrow> AgentUpdates" where
  "status_task st task =
     \<lparr>upd_id = None, upd_name = None, upd_status = Some st, upd_currentTask = Some task,
      upd_lastUpdate = None, upd_output = None\<rparr>"

definition setAgent :: "jsstring \<Rightarrow> agent_state \<Rightarrow> jsstring \<Rightarrow> dashboard \<Rightarrow> dashboard" where
  "setAgent agentId st task s =
     s\<lparr>agents := updateAgentStatus (clock s) agentId (status_task st task) (agents s)\<rparr>"

text \<open>
  \<open>setAgents(prev => prev.map(agent => ({ ...agent, status: 'idle', currentTask:
  getIdleTask(agent.id) })))\<close>
\<close>

definition resetAgents :: "dashboard \<Rightarrow> dashboard" where
  "resetAgents s =
     s\<lparr>agents := map (\<lambda>a. a\<lparr>status := Idle, currentTask := Some (getIdleTask (agent_id a))\<rparr>)
                    (agents s)\<rparr>"

text \<open>\<open>[...prev.slice(-50), log]\<close>: the last 50 entries and the new one.\<close>

definition addServerLog :: "log_level \<Rightarrow> jsstring \<Rightarrow> jsstring option \<Rightarrow> dashboard \<Rightarrow> dashboard"
  where
  "addServerLog lv msg ag s =
     s\<lparr>serverLogs := drop (length (serverLogs s) - 50) (serverLogs s)
          @ [\<lparr>timestamp = clock s, level = lv, message = msg, agent = ag\<rparr>]\<rparr>"

definition setTimeout :: "timer \<Rightarrow> nat \<Rightarrow> dashboard \<Rightarrow> dashboard" where
  "setTimeout cb delay s = s\<lparr>timers := timers s @ [(clock s + delay, cb)]\<rparr>"

definition detectAgentFromRawMessage :: "jsstring \<Rightarrow> dashboard \<Rightarrow> dashboard" where
  "detectAgentFromRawMessage msg s =
     (if js_includes msg emoji_robot \<and> js_includes msg (js ''STARTING'') then
        setAgent (js ''supervisor'') Working (js ''Initializing monitoring cycle...'')
          (s\<lparr>currentWorkflow := Some (js ''Continuous monitoring initiated'')\<rparr>)
      else if js_includes msg (js ''Supervisor:'') \<or> js_includes msg (js ''Starting monitoring cycle'')
              \<or> js_includes msg (js ''Analyzing'') then
        setAgent (js ''supervisor'') Working (js ''Analyzing server health...'') s
      else if js_includes msg (js ''LLM diagnosis:'') \<or> js_includes msg (js ''confidence:'') then
        (let s1 = setAgent (js ''supervisor'') Working
                    (if js_includes msg (js ''DOWN'')
                     then emoji_alarm @ js '' Server DOWN detected!''
                     else emoji_check @ js '' Server UP confirmed'') s
         in if js_includes msg (js ''DOWN'') then
              setTimeout RawPrepareExecutor 1500 (s1\<lparr>serverStatus := SrvDown\<rparr>)
            else if js_includes msg (js ''UP'') then s1\<lparr>serverStatus := SrvUp\<rparr>
            else s1)
      else if js_includes msg (js ''Executor:'') \<or> js_includes msg (js ''PM2'')
              \<or> js_includes msg (js ''restart'') \<or> js_includes msg (js ''repair'') then
        setAgent (js ''supervisor'') Completed (js ''Analysis complete - repair needed'')
          (setAgent (js ''executor'') Working
             (if js_includes msg (js ''success'')
              then emoji_check @ js '' Repair completed!''
              else emoji_wrench @ js '' Executing repair...'') s)
      else if js_includes msg (js ''POST-REPAIR'') \<or> js_includes msg (js ''Verification'')
              \<or> js_includes msg (js ''Testing endpoint'') then
        setTimeout RawCompleteExecutor 1000
          (setAgent (js ''evaluator'') Working (js ''Verifying repair success...'') s)
      else if js_includes msg (js ''PASSED'') \<or> js_includes msg (js ''Flashcard created'')
              \<or> js_includes msg (js ''SUMMARY'') then
        setTimeout RawWorkflowComplete 1500
          (setAgent (js ''evaluator'') Completed (emoji_check @ js '' Verification complete!'') s)
      else if js_includes msg emoji_boom \<or> js_includes msg (js ''CRASH'')
              \<or> js_includes msg (js ''Stopping server'') then
        (addServerLog Warn (emoji_boom @ js '' '' @ msg) None s)\<lparr>serverStatus := SrvDown\<rparr>
      else if js_includes msg (js ''Agent PID:'') \<or> js_includes msg (js ''monitoring started'') then
        addServerLog Success (emoji_check @ js '' '' @ msg) None s
      else s)"

text \<open>
  The data of a \<open>log\<close> event as \<open>updateAgentFromLog\<close> reads it: \<open>agent\<close>, \<open>type\<close>
  and \<open>status\<close> may be missing, \<open>message\<close> is a string.
\<close>

record LogData =
  ld_agent :: "jsstring option"
  ld_message :: jsstring
  ld_type :: "jsstring option"
  ld_status :: "jsstring option"
  ld_level :: log_level

definition updateAgentFromLog_patterns :: "jsstring \<Rightarrow> dashboard \<Rightarrow> dashboard" where
  "updateAgentFromLog_patterns msg s =
     (if js_includes msg (js ''Supervisor:'') \<or> js_includes msg (js ''Analyzing'')
         \<or> js_includes msg (js ''LLM diagnosis:'') then
        (let s1 = setAgent (js ''supervisor'') Working
                    (if js_includes msg (js ''DOWN'') then js ''Server issues detected!''
                     else js ''Analyzing server health...'') s;
             s2 = (if js_includes msg (js ''UP'') then s1\<lparr>serverStatus := SrvUp\<rparr> else s1)
         in if js_includes msg (js ''DOWN'') then s2\<lparr>serverStatus := SrvDown\<rparr> else s2)
      else if js_includes msg (js ''Executor:'') \<or> js_includes msg (js ''PM2'')
              \<or> js_includes msg (js ''restart'') \<or> js_includes msg (js ''repair'') then
        setAgent (js ''supervisor'') Completed (js ''Analysis complete - repair needed'')
          (setAgent (js ''executor'') Working
             (if js_includes msg (js ''success'') then js ''Repair completed!''
              else js ''Executing repair commands...'') s)
      else if js_includes msg (js ''Verification'') \<or> js_includes msg (js ''verified'')
              \<or> js_includes msg (js ''POST-REPAIR'') then
        setAgent (js ''executor'') Completed (js ''Repair actions executed'')
          (setAgent (js ''evaluator'') Working (js ''Verifying repair success...'') s)
      else if js_includes msg (js ''PASSED'') \<or> js_includes msg (js ''Flashcard'') then
        setTimeout LogReset 3000
          (setAgent (js ''evaluator'') Completed (js ''Verification complete!'') s)
      else if js_includes msg (js ''Starting monitoring cycle'') \<or> js_includes msg emoji_robot then
        setAgent (js ''supervisor'') Working (js ''Starting health check...'')
          (s\<lparr>currentWorkflow := Some (js ''AI monitoring cycle initiated'')\<rparr>)
      else s)"

text \<open>
  The second half of \<open>updateAgentFromLog\<close>, for structured log data; it returns at once
  when the agent is missing, empty or \<open>system\<close>.
\<close>

definition updateAgentFromLog_legacy :: "LogData \<Rightarrow> dashboard \<Rightarrow> dashboard" where
  "updateAgentFromLog_legacy logData s =
     (if ld_agent logData = None \<or> ld_agent logData = Some [] \<or> ld_agent logData = Some (js ''system'')
      then s
      else if ld_type logData = Some (js ''diagnosis'') then
        setTimeout (LogDiagnosisNext (ld_status logData = Some (js ''DOWN''))) 2000
          ((setAgent (js ''supervisor'') Working
              (js ''Diagnosing server ('' @
                 (case ld_status logData of None \<Rightarrow> js ''undefined'' | Some st \<Rightarrow> st) @ js '')'') s)
           \<lparr>serverStatus := (if ld_status logData = Some (js ''UP'') then SrvUp else SrvDown)\<rparr>)
      else if ld_type logData = Some (js ''repair'') then
        setTimeout LogRepairDone 1500
          (setAgent (js ''executor'') Working (js ''Executing repair commands...'') s)
      else if ld_type logData = Some (js ''evaluation'') then
        setTimeout LogEvaluationDone 1000
          (setAgent (js ''evaluator'') Working (js ''Creating flashcard record...'') s)
      else if ld_type logData = Some (js ''workflow'') then
        (if js_includes (ld_message logData) (js ''Starting monitoring cycle'') then
           setAgent (js ''supervisor'') Working (js ''Collecting system metrics...'')
             (s\<lparr>currentWorkflow := Some (js ''Monitoring cycle initiated'')\<rparr>)
         else if js_includes (ld_message logData) (js ''MONITORING CYCLE SUMMARY'') then
           setTimeout LogFetchFlashcards 1000 (s\<lparr>currentWorkflow := None\<rparr>)
         else s)
      else s)"

definition updateAgentFromLog :: "LogData \<Rightarrow> dashboard \<Rightarrow> dashboard" where
  "updateAgentFromLog logData s =
     updateAgentFromLog_legacy logData (updateAgentFromLog_patterns (ld_message logData) s)"

text \<open>
  What each \<open>setTimeout\<close> callback does when it runs. \<open>fetchFlashcards\<close> only loads
  the incident list, which is not part of this state.
\<close>

fun fire :: "timer \<Rightarrow> dashboard \<Rightarrow> dashboard" where
  "fire RawPrepareExecutor s =
     setAgent (js ''executor'') Working (js ''Preparing repair strategy...'') s"
| "fire RawCompleteExecutor s =
     setAgent (js ''executor'') Completed (js ''Repair execution complete'') s"
| "fire RawWorkflowComplete s =
     setTimeout RawReset 2000 (s\<lparr>currentWorkflow := Some (js ''Monitoring cycle complete'')\<rparr>)"
| "fire RawReset s = resetAgents (s\<lparr>currentWorkflow := None\<rparr>)"
| "fire LogReset s = resetAgents s"
| "fire (LogDiagnosisNext isDown) s =
     (if isDown then setAgent (js ''executor'') Working (js ''Preparing repair action...'') s
      else setAgent (js ''evaluator'') Working (js ''Verifying system health...'') s)"
| "fire LogRepairDone s =
     setTimeout LogExecutorIdle 3000
       (setAgent (js ''evaluator'') Working (js ''Verifying repair success...'')
          (setAgent (js ''executor'') Completed (js ''Repair commands executed'') s))"
| "fire LogExecutorIdle s =
     setAgent (js ''executor'') Idle (js ''Awaiting repair instructions...'') s"
| "fire LogEvaluationDone s =
     setTimeout LogReset 3000
       (setAgent (js ''supervisor'') Completed (js ''Monitoring cycle complete'')
          (setAgent (js ''evaluator'') Completed (js ''Flashcard created successfully'') s))"
| "fire LogFetchFlashcards s = s"

text \<open>
  The events the component handles: the server-sent events of the log stream and the
  answers to the start and stop requests. The handlers left out (the status poll, the
  incident list, the single check) do not touch the agents.
\<close>

datatype request_result = Succeeded | Refused jsstring | Threw

datatype dash_event =
    StreamOpen
  | LogEvent LogData
  | RawEvent log_level jsstring
  | ErrorEvent jsstring
  | ProcessExitEvent jsstring
  | StreamLost
  | StartMonitoringResult request_result
  | StopMonitoringResult request_result

fun handle_event :: "dash_event \<Rightarrow> dashboard \<Rightarrow> dashboard" where
  "handle_event StreamOpen s =
     addServerLog Success (js ''Connected to real-time log stream'') None s"
| "handle_event (LogEvent logData) s =
     addServerLog (ld_level logData) (ld_message logData) (ld_agent logData)
       (updateAgentFromLog logData s)"
| "handle_event (RawEvent lv msg) s =
     addServerLog lv msg None (detectAgentFromRawMessage msg s)"
| "handle_event (ErrorEvent msg) s = addServerLog Err msg None s"
| "handle_event (ProcessExitEvent msg) s =
     (addServerLog Warn msg None s)\<lparr>isMonitoring := False, currentWorkflow := None\<rparr>"
| "handle_event StreamLost s = addServerLog Err (js ''Lost connection to log stream'') None s"
| "handle_event (StartMonitoringResult Succeeded) s =
     (addServerLog Success (js ''Continuous monitoring started'') None (s\<lparr>isMonitoring := True\<rparr>))
       \<lparr>currentWorkflow := Some (js ''Continuous monitoring active'')\<rparr>"
| "handle_event (StartMonitoringResult (Refused err)) s =
     addServerLog Err (js ''Failed to start monitoring: '' @ err) None s"
| "handle_event (StartMonitoringResult Threw) s =
     addServerLog Err (js ''Failed to start monitoring'') None s"
| "handle_event (StopMonitoringResult Succeeded) s =
     resetAgents
       ((addServerLog Info (js ''Monitoring stopped'') None (s\<lparr>isMonitoring := False\<rparr>))
          \<lparr>currentWorkflow := None\<rparr>)"
| "handle_event (StopMonitoringResult (Refused err)) s = s"
| "handle_event (StopMonitoringResult Threw) s =
     addServerLog Err (js ''Failed to stop monitoring'') None s"

text \<open>
  The timer queue. The callback that runs next is the one due first, the one set
  earlier among those due at the same time.
\<close>

fun next_due :: "(nat \<times> timer) list \<Rightarrow> (nat \<times> timer) option" where
  "next_due [] = None"
| "next_due (x # xs) =
     (case next_due xs of
        None \<Rightarrow> Some x
      | Some y \<Rightarrow> if fst y < fst x then Some y else Some x)"

fun weight :: "timer \<Rightarrow> nat" where
  "weight RawWorkflowComplete = 2"
| "weight LogRepairDone = 2"
| "weight LogEvaluationDone = 2"
| "weight t = 1"

definition pending_weight :: "dashboard \<Rightarrow> nat" where
  "pending_weight s = sum_list (map (\<lambda>p. weight (snd p)) (timers s))"

definition fire_next :: "nat \<times> timer \<Rightarrow> dashboard \<Rightarrow> dashboard" where
  "fire_next p s = fire (snd p) (s\<lparr>clock := max (clock s) (fst p), timers := remove1 p (timers s)\<rparr>)"

lemma next_due_mem: "next_due ts = Some p \<Longrightarrow> p \<in> set ts"
  by (induction ts arbitrary: p) (auto split: option.splits if_splits)

lemma timers_setAgent [simp]: "timers (setAgent a st task s) = timers s"
  by (simp add: setAgent_def)

lemma timers_resetAgents [simp]: "timers (resetAgents s) = timers s"
  by (simp add: resetAgents_def)

lemma timers_setTimeout [simp]: "timers (setTimeout cb d s) = timers s @ [(clock s + d, cb)]"
  by (simp add: setTimeout_def)

lemma fire_weight: "pending_weight (fire cb s) < pending_weight s + weight cb"
  by (cases cb) (simp_all add: pending_weight_def)

lemma fire_next_weight:
  assumes "p \<in> set (timers s)"
  shows "pending_weight (fire_next p s) < pending_weight s"
proof -
  let ?s = "s\<lparr>clock := max (clock s) (fst p), timers := remove1 p (timers s)\<rparr>"
  have "pending_weight s = weight (snd p) + pending_weight ?s"
    using assms by (simp add: pending_weight_def sum_list_map_remove1)
  moreover have "pending_weight (fire (snd p) ?s) < pending_weight ?s + weight (snd p)"
    by (rule fire_weight)
  ultimately show ?thesis by (simp add: fire_next_def)
qed

text \<open>
  Letting the clock reach \<open>t\<close>: the callbacks due by then run one after the other, each
  on the state the one before it left, a callback set by a callback included. The
  result lists the state after each callback. A callback due at the very time of an
  event runs before the event is handled.
\<close>

function run_timers :: "nat \<Rightarrow> dashboard \<Rightarrow> dashboard list" where
  "run_timers t s =
     (case next_due (timers s) of
        None \<Rightarrow> []
      | Some p \<Rightarrow> if fst p \<le> t then fire_next p s # run_timers t (fire_next p s) else [])"
  by pat_completeness auto
termination
  by (relation "measure (\<lambda>(t, s). pending_weight s)")
     (auto dest: next_due_mem intro: fire_next_weight)

text \<open>
  A run of the component is a list of steps: an event is handled, or time passes. Its
  trace is the list of the states after each handler and each callback, which are the
  states an observer of the component can see.
\<close>

datatype step = Wait nat | Dispatch dash_event

definition wait_trace :: "nat \<Rightarrow> dashboard \<Rightarrow> dashboard list" where
  "wait_trace d s =
     (let t = clock s + d; tr = run_timers t s
      in tr @ [(last (s # tr))\<lparr>clock := t\<rparr>])"

fun step_trace :: "step \<Rightarrow> dashboard \<Rightarrow> dashboard list" where
  "step_trace (Wait d) s = wait_trace d s"
| "step_trace (Dispatch e) s = [handle_event e s]"

fun exec_trace :: "step list \<Rightarrow> dashboard \<Rightarrow> dashboard list" where
  "exec_trace [] s = []"
| "exec_trace (st # sts) s = step_trace st s @ exec_trace sts (last (s # step_trace st s))"

definition history :: "step list \<Rightarrow> dashboard list" where
  "history steps = dashboard_init # exec_trace steps dashboard_init"

definition status_of :: "jsstring \<Rightarrow> dashboard \<Rightarrow> agent_state option" where
  "status_of agentId s = map_option status (find (\<lambda>a. agent_id a = agentId) (agents s))"

text \<open>
  The scenario: the four lines arrive as \<open>raw\<close> events, \<open>g1\<close>, \<open>g2\<close> and \<open>g3\<close>
  milliseconds apart, and 3500 ms after the last one every callback has run.
\<close>

definition scenario :: "nat \<Rightarrow> nat \<Rightarrow> nat \<Rightarrow> step list" where
  "scenario g1 g2 g3 =
     [Dispatch (RawEvent Info (js ''LLM diagnosis: DOWN confidence: 0.92'')), Wait g1,
      Dispatch (RawEvent Info (js ''Executor: running PM2 restart'')), Wait g2,
      Dispatch (RawEvent Info (js ''POST-REPAIR Verification passed'')), Wait g3,
      Dispatch (RawEvent Info (js ''MONITORING CYCLE SUMMARY PASSED'')), Wait 3500]"

text \<open>
  What the scenario is about, for one state: the server status, the status of each of
  the three agents, the workflow label, whether no callback is pending, and whether
  every agent is idle with its idle task.
\<close>

definition all_idle :: "dashboard \<Rightarrow> bool" where
  "all_idle s =
     list_all (\<lambda>a. status a = Idle \<and> currentTask a = Some (getIdleTask (agent_id a))) (agents s)"

definition view ::
  "dashboard \<Rightarrow> server_state \<times> agent_state option \<times> agent_state option \<times> agent_state option
     \<times> jsstring option \<times> bool \<times> bool" where
  "view s =
     (serverStatus s, status_of (js ''supervisor'') s, status_of (js ''executor'') s,
      status_of (js ''evaluator'') s, currentWorkflow s, timers s = [], all_idle s)"

section \<open>Log stream (\<open>src/app/api/logs/stream/route.ts\<close>)\<close>

text \<open>
  The \<open>data\<close> handlers of the child's stdout and stderr. Each works on
  \<open>output = data.toString()\<close>, the text of the one chunk it was called with: it splits
  the text at the newlines, keeps the segments that still have a character after
  \<open>trim\<close>, and sends one event for each. Nothing is kept from one chunk to the next,
  and the \<open>exit\<close> handler sends no line.
\<close>

record SseEvent =
  sse_event :: string
  sse_message :: jsstring
  sse_timestamp :: nat
  sse_level :: log_level

definition frame_lines :: "jsstring \<Rightarrow> jsstring list" where
  "frame_lines output = filter (\<lambda>line. js_trim line \<noteq> []) (split_nl output)"

definition on_stdout_data :: "nat \<Rightarrow> jsstring \<Rightarrow> SseEvent list" where
  "on_stdout_data now output =
     map (\<lambda>line. \<lparr>sse_event = ''raw'', sse_message = line, sse_timestamp = now, sse_level = Info\<rparr>)
       (frame_lines output)"

definition on_stderr_data :: "nat \<Rightarrow> jsstring \<Rightarrow> SseEvent list" where
  "on_stderr_data now output =
     map (\<lambda>line. \<lparr>sse_event = ''error'', sse_message = line, sse_timestamp = now, sse_level = Err\<rparr>)
       (frame_lines output)"

text \<open>
  The lines sent for a sequence of chunks of one stream, each chunk with the time of
  its arrival, and two ways of putting the newlines back: one after every line, or one
  between any two lines.
\<close>

definition emitted_lines ::
  "(nat \<Rightarrow> jsstring \<Rightarrow> SseEvent list) \<Rightarrow> (nat \<times> jsstring) list \<Rightarrow> jsstring list" where
  "emitted_lines handler chunks =
     map sse_message (concat (map (\<lambda>c. handler (fst c) (snd c)) chunks))"

definition unlines :: "jsstring list \<Rightarrow> jsstring" where
  "unlines ls = concat (map (\<lambda>l. l @ [newline]) ls)"

fun join_lines :: "jsstring list \<Rightarrow> jsstring" where
  "join_lines [] = []"
| "join_lines [l] = l"
| "join_lines (l # ls) = l @ [newline] @ join_lines ls"

text \<open>
  \<open>parseAgentLog\<close>. Its event carries the time of the call. \<open>parseFloat\<close> is
  JavaScript's, taken as a parameter; a number is a real or NaN. No operation in the
  body throws on a string, so the \<open>catch\<close> branch is never taken.
\<close>

datatype jsnum = Num real | NaN

record AgentLog =
  al_agent :: jsstring
  al_type :: jsstring
  al_message :: jsstring
  al_status :: "up_down option"
  al_confidence :: "jsnum option"
  al_timestamp :: nat
  al_level :: log_level

text \<open>\<open>line.match(/(UP|DOWN)/)\<close>: the leftmost match, \<open>UP\<close> tried first.\<close>

fun match_up_down :: "jsstring \<Rightarrow> up_down option" where
  "match_up_down [] = None"
| "match_up_down (c # cs) =
     (if prefix (js ''UP'') (c # cs) then Some UP
      else if prefix (js ''DOWN'') (c # cs) then Some DOWN
      else match_up_down cs)"

definition isDigitOrDot :: "16 word \<Rightarrow> bool" where
  "isDigitOrDot c = ((0x30 \<le> c \<and> c \<le> 0x39) \<or> c = 0x2E)"

text \<open>
  \<open>line.match(/confidence: ([\d.]+)/)\<close>: the group of the leftmost match, the longest
  run of digits and dots after the first \<open>confidence: \<close> that has one.
\<close>

fun match_confidence :: "jsstring \<Rightarrow> jsstring option" where
  "match_confidence [] = None"
| "match_confidence (c # cs) =
     (if prefix (js ''confidence: '') (c # cs)
         \<and> takeWhile isDigitOrDot (drop 12 (c # cs)) \<noteq> []
      then Some (takeWhile isDigitOrDot (drop 12 (c # cs)))
      else match_confidence cs)"

definition parseAgentLog :: "(jsstring \<Rightarrow> jsnum) \<Rightarrow> nat \<Rightarrow> jsstring \<Rightarrow> AgentLog option" where
  "parseAgentLog parseFloat now line =
     (if js_includes line (js ''Supervisor diagnosis:'') then
        Some \<lparr>al_agent = js ''supervisor'', al_type = js ''diagnosis'', al_message = line,
              al_status = Some (case match_up_down line of None \<Rightarrow> UNKNOWN | Some st \<Rightarrow> st),
              al_confidence = Some (case match_confidence line of
                                      None \<Rightarrow> Num 0
                                    | Some digits \<Rightarrow> parseFloat digits),
              al_timestamp = now, al_level = Info\<rparr>
      else if js_includes line (js ''Executor:'') \<or> js_includes line (js ''PM2'')
              \<or> js_includes line (js ''restart'') then
        Some \<lparr>al_agent = js ''executor'', al_type = js ''repair'', al_message = line,
              al_status = None, al_confidence = None, al_timestamp = now,
              al_level = (if js_includes line (js ''success'') then Success else Info)\<rparr>
      else if js_includes line (js ''Evaluator:'') \<or> js_includes line (js ''Flashcard written'') then
        Some \<lparr>al_agent = js ''evaluator'', al_type = js ''evaluation'', al_message = line,
              al_status = None, al_confidence = None, al_timestamp = now, al_level = Success\<rparr>
      else if js_includes line (js ''Starting monitoring cycle'')
              \<or> js_includes line (js ''MONITORING CYCLE SUMMARY'')
              \<or> js_includes line (js ''Server is DOWN'')
              \<or> js_includes line (js ''Server appears to be UP'') then
        Some \<lparr>al_agent = js ''system'', al_type = js ''workflow'', al_message = line,
              al_status = None, al_confidence = None, al_timestamp = now,
              al_level = (if js_includes line (js ''DOWN'') then Warn else Info)\<rparr>
      else if js_includes line (js ''LLM diagnosis:'') then
        Some \<lparr>al_agent = js ''supervisor'', al_type = js ''llm_diagnosis'', al_message = line,
              al_status = None, al_confidence = None, al_timestamp = now, al_level = Info\<rparr>
      else if js_includes line (js ''ERROR'') \<or> js_includes line (js ''Failed'') then
        Some \<lparr>al_agent = js ''system'', al_type = js ''error'', al_message = line,
              al_status = None, al_confidence = None, al_timestamp = now, al_level = Err\<rparr>
      else if js_trim line \<noteq> [] then
        Some \<lparr>al_agent = js ''system'', al_type = js ''general'', al_message = line,
              al_status = None, al_confidence = None, al_timestamp = now, al_level = Info\<rparr>
      else None)"

section \<open>Incident reads (\<open>src/app/api/incidents/route.ts\<close>, \<open>src/app/api/stats/route.ts\<close>)\<close>

text \<open>
  The record file is \<open>None\<close> when \<open>readFile\<close> fails (the file is missing) and its
  text otherwise. \<open>JSON.parse\<close> is JavaScript's, taken as the parameter \<open>parse\<close>:
  \<open>None\<close> where it throws, and otherwise the value it returns, which need not be an
  incident. The routes read \<open>detected_at\<close>, \<open>diagnosis\<close> and \<open>action\<close> of a
  value, so three kinds of value are told apart:
  \<^item> \<open>JsonNull\<close>, the value \<open>null\<close>: reading any property of it throws a TypeError;
  \<^item> \<open>JsonOther d\<close>, any other value whose \<open>diagnosis\<close> or \<open>action\<close> is missing or
    null (a number, a string, an array, an object such as \<open>{}\<close>), with its
    \<open>detected_at\<close> if it has one: reading \<open>diagnosis.status\<close> or
    \<open>action.repair_attempted\<close> of it throws a TypeError;
  \<^item> \<open>JsonIncident r\<close>, an object of the declared type \<open>FlashcardIncident\<close>.
  An object that has a \<open>diagnosis\<close> and an \<open>action\<close> with properties of other
  types than the declared ones is not covered.
\<close>

datatype parsed = JsonNull | JsonOther "jsstring option" | JsonIncident FlashcardIncident

datatype type_error = TypeError

definition read_lines :: "jsstring \<Rightarrow> jsstring list" where
  "read_lines fileContent = filter (\<lambda>line. length line > 0) (split_nl (js_trim fileContent))"

text \<open>\<open>lines.map(line => JSON.parse(line))\<close>: the first line that throws ends the map.\<close>

fun parse_lines :: "(jsstring \<Rightarrow> 'a option) \<Rightarrow> jsstring list \<Rightarrow> 'a list option" where
  "parse_lines parse [] = Some []"
| "parse_lines parse (l # ls) =
     (case parse l of
        None \<Rightarrow> None
      | Some r \<Rightarrow> (case parse_lines parse ls of None \<Rightarrow> None | Some rs \<Rightarrow> Some (r # rs)))"

text \<open>
  \<open>new Date(x.detected_at).getTime()\<close>: a TypeError on \<open>null\<close>, and otherwise the
  time of the date, \<open>None\<close> for NaN (the property is missing or is no valid date).
\<close>

definition detected_time :: "(jsstring \<Rightarrow> int option) \<Rightarrow> parsed \<Rightarrow> type_error + int option" where
  "detected_time getTime x =
     (case x of
        JsonNull \<Rightarrow> Inl TypeError
      | JsonOther d \<Rightarrow> Inr (case d of None \<Rightarrow> None | Some text \<Rightarrow> getTime text)
      | JsonIncident r \<Rightarrow> Inr (getTime (detected_at r)))"

text \<open>
  The comparator of the listing, \<open>new Date(b.detected_at).getTime() - new
  Date(a.detected_at).getTime()\<close>, with \<open>b\<close> read first; the difference is NaN
  (\<open>None\<close>) when one of the times is.
\<close>

definition compare_detected ::
  "(jsstring \<Rightarrow> int option) \<Rightarrow> parsed \<Rightarrow> parsed \<Rightarrow> type_error + int option" where
  "compare_detected getTime a b =
     (case detected_time getTime b of
        Inl e \<Rightarrow> Inl e
      | Inr tb \<Rightarrow>
          (case detected_time getTime a of
             Inl e \<Rightarrow> Inl e
           | Inr ta \<Rightarrow>
               Inr (case tb of
                      None \<Rightarrow> None
                    | Some nb \<Rightarrow> (case ta of None \<Rightarrow> None | Some na \<Rightarrow> Some (nb - na)))))"

record IncidentsResponse =
  ir_success :: bool
  ir_error :: "string option"
  ir_data :: "parsed list"
  ir_count :: nat
  ir_http :: nat

definition incidents_failure :: IncidentsResponse where
  "incidents_failure =
     \<lparr>ir_success = False, ir_error = Some ''Failed to read incident history'',
      ir_data = [], ir_count = 0, ir_http = 500\<rparr>"

text \<open>
  The listing. \<open>Array.prototype.sort\<close> is the engine's, taken as the parameter
  \<open>engine_sort\<close>: given the comparator and the array it returns the sorted array, or
  the exception that the comparator threw. Which pairs it compares, and the order it
  returns when a date is invalid, are the engine's own.
\<close>

definition incidents_GET ::
  "(jsstring \<Rightarrow> parsed option) \<Rightarrow> (jsstring \<Rightarrow> int option)
     \<Rightarrow> ((parsed \<Rightarrow> parsed \<Rightarrow> type_error + int option) \<Rightarrow> parsed list \<Rightarrow> type_error + parsed list)
     \<Rightarrow> jsstring option \<Rightarrow> IncidentsResponse" where
  "incidents_GET parse getTime engine_sort file =
     (case file of
        None \<Rightarrow> incidents_failure
      | Some fileContent \<Rightarrow>
          (case parse_lines parse (read_lines fileContent) of
             None \<Rightarrow> incidents_failure
           | Some values \<Rightarrow>
               (case engine_sort (compare_detected getTime) values of
                  Inl e \<Rightarrow> incidents_failure
                | Inr incidents \<Rightarrow>
                    \<lparr>ir_success = True, ir_error = None, ir_data = incidents,
                     ir_count = length incidents, ir_http = 200\<rparr>)))"

text \<open>\<open>readIncidents\<close> of the statistics route: every failure gives the empty list.\<close>

definition readIncidents :: "(jsstring \<Rightarrow> parsed option) \<Rightarrow> jsstring option \<Rightarrow> parsed list" where
  "readIncidents parse file =
     (case file of
        None \<Rightarrow> []
      | Some fileContent \<Rightarrow>
          (case parse_lines parse (read_lines fileContent) of
             None \<Rightarrow> []
           | Some values \<Rightarrow> values))"

text \<open>
  \<open>calculateStats\<close> on the values that \<open>readIncidents\<close> returned. Every filter of
  \<open>calculateStats\<close> reads every element, so on a list that is not empty it throws as
  soon as one element is \<open>null\<close> or has no \<open>diagnosis\<close> or no \<open>action\<close>; on
  incidents of the declared type it is \<open>calculateStats\<close> above.
\<close>

fun as_incidents :: "parsed list \<Rightarrow> type_error + FlashcardIncident list" where
  "as_incidents [] = Inr []"
| "as_incidents (JsonIncident r # vs) =
     (case as_incidents vs of Inl e \<Rightarrow> Inl e | Inr rs \<Rightarrow> Inr (r # rs))"
| "as_incidents (v # vs) = Inl TypeError"

definition calculateStats_values ::
  "(jsstring \<Rightarrow> int option) \<Rightarrow> int \<Rightarrow> parsed list \<Rightarrow> type_error + SystemStats" where
  "calculateStats_values getTime now values =
     (case as_incidents values of
        Inl e \<Rightarrow> Inl e
      | Inr incidents \<Rightarrow> Inr (calculateStats getTime now incidents))"

record StatsResponse =
  sr_success :: bool
  sr_error :: "string option"
  sr_data :: SystemStats
  sr_http :: nat

definition stats_failure :: StatsResponse where
  "stats_failure =
     \<lparr>sr_success = False, sr_error = Some ''Failed to calculate system statistics'',
      sr_data = \<lparr>uptimePercentage = 0, averageRepairTime = 0,
                  incidentsLast24h = 0, averageConfidence = 0\<rparr>,
      sr_http = 500\<rparr>"

text \<open>The statistics route, with its own \<open>catch\<close> around the calculation.\<close>

definition stats_GET ::
  "(jsstring \<Rightarrow> parsed option) \<Rightarrow> (jsstring \<Rightarrow> int option) \<Rightarrow> int \<Rightarrow> jsstring option
     \<Rightarrow> StatsResponse" where
  "stats_GET parse getTime now file =
     (case calculateStats_values getTime now (readIncidents parse file) of
        Inl e \<Rightarrow> stats_failure
      | Inr stats \<Rightarrow> \<lparr>sr_success = True, sr_error = None, sr_data = stats, sr_http = 200\<rparr>)"

section \<open>Monitoring supervisor (\<open>src/app/api/monitoring/route.ts\<close>)\<close>

text \<open>
  What the routes do to the operating system is kept as a list of effects, the latest
  last. \<open>spawn\<close> returns a process object (whose pid is undefined when no process
  came to be) or throws. \<open>ChildProcess.kill\<close> either delivers the signal, returns
  true and sets \<open>killed\<close>; or does not deliver it and returns false; or throws.
\<close>

datatype signal = SIGTERM | SIGKILL

datatype os_effect = Spawn "nat option" | Signal "nat option" signal

datatype spawn_result = Spawned "nat option" | SpawnThrows string

datatype kill_result = Delivered | NotDelivered | KillThrows string

definition kill :: "signal \<Rightarrow> kill_result \<Rightarrow> ChildProcess \<Rightarrow> string + ChildProcess \<times> os_effect list"
  where
  "kill sig res p =
     (case res of
        Delivered \<Rightarrow> Inr (p\<lparr>killed := True\<rparr>, [Signal (pid p) sig])
      | NotDelivered \<Rightarrow> Inr (p, [])
      | KillThrows err \<Rightarrow> Inl err)"

definition is_spawn :: "os_effect \<Rightarrow> bool" where
  "is_spawn e = (case e of Spawn p \<Rightarrow> True | Signal p sig \<Rightarrow> False)"

definition spawn_count :: "os_effect list \<Rightarrow> nat" where
  "spawn_count es = length (filter is_spawn es)"

text \<open>
  The module variables of the route, and the effects so far. (The route also stores
  the start time on the process object, where nothing reads it.)
\<close>

record MonitoringModule =
  monitoringProcess :: "ChildProcess option"
  mon_isMonitoring :: bool
  processStartTime :: "nat option"
  mon_effects :: "os_effect list"

definition monitoring_init :: MonitoringModule where
  "monitoring_init =
     \<lparr>monitoringProcess = None, mon_isMonitoring = False, processStartTime = None,
      mon_effects = []\<rparr>"

record ApiResponse =
  r_success :: bool
  r_message :: "string option"
  r_error :: "string option"
  r_processId :: "nat option"
  r_http :: nat

definition already_running :: ApiResponse where
  "already_running =
     \<lparr>r_success = False, r_message = None, r_error = Some ''Monitoring is already running'',
      r_processId = None, r_http = 200\<rparr>"

definition not_running :: ApiResponse where
  "not_running =
     \<lparr>r_success = False, r_message = None, r_error = Some ''Monitoring is not running'',
      r_processId = None, r_http = 200\<rparr>"

definition startMonitoring ::
  "spawn_result \<Rightarrow> nat \<Rightarrow> MonitoringModule \<Rightarrow> ApiResponse \<times> MonitoringModule" where
  "startMonitoring sp now m =
     (if mon_isMonitoring m then (already_running, m)
      else
        (case sp of
           Spawned p \<Rightarrow>
             (\<lparr>r_success = True, r_message = Some ''Monitoring started successfully'',
               r_error = None, r_processId = p, r_http = 200\<rparr>,
              m\<lparr>monitoringProcess := Some \<lparr>pid = p, killed = False\<rparr>,
                processStartTime := Some now,
                mon_isMonitoring := True,
                mon_effects := mon_effects m @ [Spawn p]\<rparr>)
         | SpawnThrows err \<Rightarrow>
             (\<lparr>r_success = False, r_message = None,
               r_error = Some ''Failed to start monitoring process'',
               r_processId = None, r_http = 500\<rparr>,
              m\<lparr>mon_isMonitoring := False, monitoringProcess := None\<rparr>)))"

text \<open>The \<open>exit\<close> and \<open>error\<close> handlers of the spawned process.\<close>

definition on_process_exit :: "MonitoringModule \<Rightarrow> MonitoringModule" where
  "on_process_exit m = m\<lparr>mon_isMonitoring := False, monitoringProcess := None\<rparr>"

definition stop_failed :: ApiResponse where
  "stop_failed =
     \<lparr>r_success = False, r_message = None, r_error = Some ''Failed to stop monitoring process'',
      r_processId = None, r_http = 500\<rparr>"

definition stop_succeeded :: ApiResponse where
  "stop_succeeded =
     \<lparr>r_success = True, r_message = Some ''Monitoring stopped successfully'', r_error = None,
      r_processId = None, r_http = 200\<rparr>"

text \<open>
  \<open>stopMonitoring\<close> up to its \<open>await\<close>: the guard and the SIGTERM. It answers at
  once (\<open>Inl\<close>), or suspends until the time it returns (\<open>Inr\<close>), 2000 ms later.
\<close>

definition stopMonitoring_begin ::
  "kill_result \<Rightarrow> nat \<Rightarrow> MonitoringModule \<Rightarrow> (ApiResponse + nat) \<times> MonitoringModule" where
  "stopMonitoring_begin k1 now m =
     (case monitoringProcess m of
        None \<Rightarrow> (Inl not_running, m)
      | Some p \<Rightarrow>
          if \<not> mon_isMonitoring m then (Inl not_running, m)
          else
            (case kill SIGTERM k1 p of
               Inl err \<Rightarrow> (Inl stop_failed, m)
             | Inr (p', es) \<Rightarrow>
                 (Inr (now + 2000),
                  m\<lparr>monitoringProcess := Some p', mon_effects := mon_effects m @ es\<rparr>)))"

text \<open>
  \<open>stopMonitoring\<close> after its \<open>await\<close>, on the module as the handlers that ran in
  the meantime left it.
\<close>

definition stopMonitoring_resume :: "kill_result \<Rightarrow> MonitoringModule \<Rightarrow> ApiResponse \<times> MonitoringModule"
  where
  "stopMonitoring_resume k2 m =
     (case monitoringProcess m of
        None \<Rightarrow> (stop_succeeded, m\<lparr>mon_isMonitoring := False, monitoringProcess := None\<rparr>)
      | Some p \<Rightarrow>
          if killed p then
            (stop_succeeded, m\<lparr>mon_isMonitoring := False, monitoringProcess := None\<rparr>)
          else
            (case kill SIGKILL k2 p of
               Inl err \<Rightarrow> (stop_failed, m)
             | Inr (p', es) \<Rightarrow>
                 (stop_succeeded,
                  m\<lparr>mon_isMonitoring := False, monitoringProcess := None,
                    mon_effects := mon_effects m @ es\<rparr>)))"

text \<open>
  The whole of \<open>stopMonitoring\<close>, with \<open>window\<close> what the other handlers did to the
  module during the two seconds.
\<close>

definition stopMonitoring ::
  "kill_result \<Rightarrow> (MonitoringModule \<Rightarrow> MonitoringModule) \<Rightarrow> kill_result \<Rightarrow> nat \<Rightarrow> MonitoringModule
     \<Rightarrow> ApiResponse \<times> MonitoringModule" where
  "stopMonitoring k1 window k2 now m =
     (case stopMonitoring_begin k1 now m of
        (Inl response, m') \<Rightarrow> (response, m')
      | (Inr wake, m') \<Rightarrow> stopMonitoring_resume k2 (window m'))"

text \<open>
  What a delivered SIGTERM leaves of the child after the two seconds of
  \<open>stopMonitoring\<close>: the child has exited in time, and its \<open>exit\<close> handler has run; or
  it is still running, and no handler has run. A child that is still running after
  the two seconds is alive in the end unless a SIGKILL was delivered to it.
\<close>

datatype child_reaction = ExitsInTime | StillRunning

definition grace_window :: "child_reaction \<Rightarrow> MonitoringModule \<Rightarrow> MonitoringModule" where
  "grace_window reaction m =
     (case reaction of ExitsInTime \<Rightarrow> on_process_exit m | StillRunning \<Rightarrow> m)"

definition alive_after_stop :: "child_reaction \<Rightarrow> nat option \<Rightarrow> os_effect list \<Rightarrow> bool" where
  "alive_after_stop reaction child effects =
     (reaction = StillRunning \<and> Signal child SIGKILL \<notin> set effects)"

text \<open>The steps of the module: the requests and the process events, in any order.\<close>

datatype mon_event =
    StartRequest spawn_result nat
  | StopBegin kill_result nat
  | StopResume kill_result
  | ProcessExit
  | ProcessError

fun mon_step :: "mon_event \<Rightarrow> MonitoringModule \<Rightarrow> MonitoringModule" where
  "mon_step (StartRequest sp now) m = snd (startMonitoring sp now m)"
| "mon_step (StopBegin k now) m = snd (stopMonitoring_begin k now m)"
| "mon_step (StopResume k) m = snd (stopMonitoring_resume k m)"
| "mon_step ProcessExit m = on_process_exit m"
| "mon_step ProcessError m = on_process_exit m"

definition mon_run :: "mon_event list \<Rightarrow> MonitoringModule" where
  "mon_run evs = foldl (\<lambda>m e. mon_step e m) monitoring_init evs"

section \<open>Crash-test requests (\<open>src/app/api/crash-test/route.ts\<close>)\<close>

record CrashTestModule =
  activeTestProcess :: "ChildProcess option"
  testStartTime :: "int option"
  ct_effects :: "os_effect list"

definition crash_test_init :: CrashTestModule where
  "crash_test_init = \<lparr>activeTestProcess = None, testStartTime = None, ct_effects = []\<rparr>"

record CrashResponse =
  c_success :: bool
  c_message :: "string option"
  c_pid :: "nat option"
  c_data :: "CrashStatus option"
  c_http :: nat

definition crash_failure :: "string \<Rightarrow> CrashResponse" where
  "crash_failure err =
     \<lparr>c_success = False, c_message = Some err, c_pid = None, c_data = None, c_http = 500\<rparr>"

text \<open>
  The \<open>start\<close> action: an existing test is sent SIGTERM and forgotten, then the script
  is spawned. An exception goes to the route's \<open>catch\<close>.
\<close>

definition crash_start ::
  "kill_result \<Rightarrow> spawn_result \<Rightarrow> int \<Rightarrow> CrashTestModule \<Rightarrow> CrashResponse \<times> CrashTestModule" where
  "crash_start k sp now m =
     (case (case activeTestProcess m of
              None \<Rightarrow> Inr m
            | Some p \<Rightarrow>
                (case kill SIGTERM k p of
                   Inl err \<Rightarrow> Inl err
                 | Inr (p', es) \<Rightarrow>
                     Inr (m\<lparr>activeTestProcess := None, ct_effects := ct_effects m @ es\<rparr>))) of
        Inl err \<Rightarrow> (crash_failure err, m)
      | Inr m1 \<Rightarrow>
          (case sp of
             SpawnThrows err \<Rightarrow> (crash_failure err, m1)
           | Spawned p \<Rightarrow>
               (\<lparr>c_success = True, c_message = Some ''Crash test started successfully'',
                 c_pid = p, c_data = None, c_http = 200\<rparr>,
                m1\<lparr>activeTestProcess := Some \<lparr>pid = p, killed = False\<rparr>,
                   testStartTime := Some now,
                   ct_effects := ct_effects m1 @ [Spawn p]\<rparr>)))"

definition crash_stop :: "kill_result \<Rightarrow> CrashTestModule \<Rightarrow> CrashResponse \<times> CrashTestModule" where
  "crash_stop k m =
     (case activeTestProcess m of
        None \<Rightarrow>
          (\<lparr>c_success = False, c_message = Some ''No active crash test to stop'',
            c_pid = None, c_data = None, c_http = 200\<rparr>, m)
      | Some p \<Rightarrow>
          (case kill SIGTERM k p of
             Inl err \<Rightarrow> (crash_failure err, m)
           | Inr (p', es) \<Rightarrow>
               (\<lparr>c_success = True, c_message = Some ''Crash test stopped successfully'',
                 c_pid = None, c_data = None, c_http = 200\<rparr>,
                m\<lparr>activeTestProcess := None, testStartTime := None,
                  ct_effects := ct_effects m @ es\<rparr>)))"

definition crash_status_action :: "int \<Rightarrow> CrashTestModule \<Rightarrow> CrashResponse \<times> CrashTestModule" where
  "crash_status_action now m =
     (\<lparr>c_success = True, c_message = None, c_pid = None,
       c_data = Some (crash_status now (activeTestProcess m) (testStartTime m)), c_http = 200\<rparr>,
      m)"

text \<open>The \<open>close\<close> handler of a spawned test.\<close>

definition on_test_close :: "CrashTestModule \<Rightarrow> CrashTestModule" where
  "on_test_close m = m\<lparr>activeTestProcess := None, testStartTime := None\<rparr>"

text \<open>
  The request body: one of the three actions, another value, or a body for which
  \<open>request.json()\<close> throws.
\<close>

datatype crash_action = ActStart | ActStop | ActStatus | ActOther | BadBody string

definition crash_POST ::
  "crash_action \<Rightarrow> kill_result \<Rightarrow> spawn_result \<Rightarrow> int \<Rightarrow> CrashTestModule
     \<Rightarrow> CrashResponse \<times> CrashTestModule" where
  "crash_POST act k sp now m =
     (case act of
        ActStart \<Rightarrow> crash_start k sp now m
      | ActStop \<Rightarrow> crash_stop k m
      | ActStatus \<Rightarrow> crash_status_action now m
      | ActOther \<Rightarrow>
          (\<lparr>c_success = False, c_message = Some ''Invalid action'', c_pid = None,
            c_data = None, c_http = 400\<rparr>, m)
      | BadBody err \<Rightarrow> (crash_failure err, m))"

section \<open>Example states and inputs\<close>

text \<open>
  The inputs of the examples below: a monitoring module and a crash-test module in
  which one process runs; an incident record, the line of the record file that holds
  it, and the time of its date; \<open>JSON.parse\<close> on the lines that the examples use
  (every other line stands for a text that does not parse); and a stable insertion
  sort in the place of the engine's sort.
\<close>

definition running_monitor :: MonitoringModule where
  "running_monitor = snd (startMonitoring (Spawned (Some 4242)) 5 monitoring_init)"

definition running_test :: CrashTestModule where
  "running_test = snd (crash_start Delivered (Spawned (Some 4711)) 1000 crash_test_init)"

definition example_incident :: FlashcardIncident where
  "example_incident =
     \<lparr>detected_at = js ''2025-01-01T00:00:00Z'',
      diagnosis = \<lparr>diag_status = DOWN, reason = js ''timeout'', detailed_diagnosis = None,
                    confidence = 0.9\<rparr>,
      action = \<lparr>repair_attempted = True, repair_action = js ''pm2_restart'',
                 repair_success = True, repair_output = js ''ok''\<rparr>,
      verification = \<lparr>verified = True, verification_response = js ''200'',
                       post_repair_status = UP\<rparr>,
      metadata = \<lparr>nginx_logs_length = 0, health_check_successful = True,
                   workflow_completed = True\<rparr>\<rparr>"

definition example_line :: jsstring where
  \<open>example_line = js (''{"detected_at":"2025-01-01T00:00:00Z",'' @
     ''"diagnosis":{"status":"DOWN","reason":"timeout","confidence":0.9},'' @
     ''"action":{"repair_attempted":true,"repair_action":"pm2_restart",'' @
     ''"repair_success":true,"repair_output":"ok"},'' @
     ''"verification":{"verified":true,"verification_response":"200",'' @
     ''"post_repair_status":"UP"},'' @
     ''"metadata":{"nginx_logs_length":0,"health_check_successful":true,'' @
     ''"workflow_completed":true}}'')\<close>

definition example_parse :: "jsstring \<Rightarrow> parsed option" where
  "example_parse line =
     (if line = js ''null'' then Some JsonNull
      else if line = js ''{}'' then Some (JsonOther None)
      else if line = example_line then Some (JsonIncident example_incident)
      else None)"

definition example_getTime :: "jsstring \<Rightarrow> int option" where
  "example_getTime text =
     (if text = js ''2025-01-01T00:00:00Z'' then Some 1735689600000 else None)"

text \<open>
  The insertion sort: each element goes behind the elements that it is not less than.
  With valid dates this is the order of the engine's sort, which is stable.
\<close>

fun insert_sorted ::
  "('a \<Rightarrow> 'a \<Rightarrow> type_error + int option) \<Rightarrow> 'a \<Rightarrow> 'a list \<Rightarrow> type_error + 'a list" where
  "insert_sorted cmp x [] = Inr [x]"
| "insert_sorted cmp x (y # ys) =
     (case cmp x y of
        Inl e \<Rightarrow> Inl e
      | Inr d \<Rightarrow>
          if (case d of None \<Rightarrow> False | Some n \<Rightarrow> n < 0) then Inr (x # y # ys)
          else (case insert_sorted cmp x ys of Inl e \<Rightarrow> Inl e | Inr zs \<Rightarrow> Inr (y # zs)))"

fun sort_into ::
  "('a \<Rightarrow> 'a \<Rightarrow> type_error + int option) \<Rightarrow> 'a list \<Rightarrow> 'a list \<Rightarrow> type_error + 'a list" where
  "sort_into cmp acc [] = Inr acc"
| "sort_into cmp acc (x # xs) =
     (case insert_sorted cmp x acc of Inl e \<Rightarrow> Inl e | Inr acc' \<Rightarrow> sort_into cmp acc' xs)"

definition insertion_sort ::
  "('a \<Rightarrow> 'a \<Rightarrow> type_error + int option) \<Rightarrow> 'a list \<Rightarrow> type_error + 'a list" where
  "insertion_sort cmp xs = sort_into cmp [] xs"

text \<open>The neutral baseline of the statistics.\<close>

definition baseline :: SystemStats where
  "baseline = \<lparr>uptimePercentage = 100, averageRepairTime = 0,
      incidentsLast24h = 0, averageConfidence = 0\<rparr>"

section \<open>Properties of the statistics and of the milestone schedule\<close>

lemma crash_loop_filter:
  "crash_loop e cs (n, done) =
     ((case n of None \<Rightarrow> find (\<lambda>c. e < time c) cs | Some c \<Rightarrow> Some c),
      done @ filter (\<lambda>c. time c \<le> e) cs)"
  by (induction cs arbitrary: n "done") (auto split: option.splits)

text \<open>
  C9. \<open>calculateStats\<close> on the empty record list returns the neutral baseline: uptime
  100, average repair time 0, no incident in the last 24 hours, average confidence 0,
  whatever the clock and the date parser are.
\<close>

theorem calculateStats_empty:
  "calculateStats getTime now [] =
     \<lparr>uptimePercentage = 100, averageRepairTime = 0,
      incidentsLast24h = 0, averageConfidence = 0\<rparr>"
  by (simp add: calculateStats_def)

lemma status_fields:
  "completedCrashes (crash_status now proc st) = filter (\<lambda>c. time c \<le> elapsedTime now st) crashSchedule"
  "nextCrash (crash_status now proc st) =
       map_option (\<lambda>c. \<lparr>nc_time = time c, nc_method = crash_method c, nc_description = description c,
                          timeUntil = time c - elapsedTime now st\<rparr>)
         (find (\<lambda>c. elapsedTime now st < time c) crashSchedule)"
  by (simp_all add: crash_status_def schedule_status_def crash_loop_filter Let_def split: option.splits)

lemma find_None_filter: "find (\<lambda>c. (e::int) < time c) cs = None \<longleftrightarrow> filter (\<lambda>c. time c \<le> e) cs = cs"
  by (induction cs) (auto simp: filter_id_conv find_None_iff not_less dest: filter_eq_ConsD)

lemma sorted_schedule: "sorted (map time crashSchedule)"
  by (simp add: crashSchedule_def)

lemma find_first_least:
  "sorted (map time cs) \<Longrightarrow> find (\<lambda>c. (e::int) < time c) cs = Some n \<Longrightarrow> c \<in> set cs \<Longrightarrow> e < time c \<Longrightarrow> time n \<le> time c"
  by (induction cs) (auto split: if_splits)

text \<open>
  C6. Whatever the process does, at an elapsed time \<open>e \<ge> 0\<close> the status lists as
  completed exactly the milestones of the schedule whose offset is at most \<open>e\<close>; the
  next milestone is the first one whose offset is greater than \<open>e\<close>, which is the
  earliest of them, with \<open>timeUntil\<close> its offset minus \<open>e\<close>; and there is no next
  milestone exactly when all are completed.
\<close>

theorem crash_status_milestones:
  assumes "elapsedTime now started = e" and "0 \<le> e"
  shows
  "completedCrashes (crash_status now proc started) = filter (\<lambda>c. time c \<le> e) crashSchedule
   \<and> nextCrash (crash_status now proc started) =
       map_option (\<lambda>c. \<lparr>nc_time = time c, nc_method = crash_method c, nc_description = description c,
                          timeUntil = time c - e\<rparr>)
         (find (\<lambda>c. e < time c) crashSchedule)
   \<and> (nextCrash (crash_status now proc started) = None
        \<longleftrightarrow> completedCrashes (crash_status now proc started) = crashSchedule)
   \<and> (\<forall>n\<in>set_option (nextCrash (crash_status now proc started)).
         \<forall>c\<in>set crashSchedule. e < time c \<longrightarrow> nc_time n \<le> time c)"
proof -
  have least: "\<forall>n\<in>set_option (nextCrash (crash_status now proc started)).
         \<forall>c\<in>set crashSchedule. e < time c \<longrightarrow> nc_time n \<le> time c"
  proof (intro ballI impI)
    fix n c
    assume n: "n \<in> set_option (nextCrash (crash_status now proc started))"
      and c: "c \<in> set crashSchedule" "e < time c"
    show "nc_time n \<le> time c"
    proof (cases "find (\<lambda>c. e < time c) crashSchedule")
      case None
      with n show ?thesis by (simp add: status_fields assms(1))
    next
      case (Some m)
      with n have "nc_time n = time m" by (simp add: status_fields assms(1))
      then show ?thesis
        using find_first_least [OF sorted_schedule Some c] by simp
    qed
  qed
  show ?thesis
    using least by (simp add: status_fields assms(1) find_None_filter)
qed

theorem crash_status_milestones_witness:
  "completedCrashes (crash_status 1061000 None (Some 1000000)) =
     [\<lparr>time = 15, crash_method = ''stop'', description = ''PM2 Stop''\<rparr>,
      \<lparr>time = 60, crash_method = ''kill'', description = ''Process Kill''\<rparr>]
   \<and> nextCrash (crash_status 1061000 None (Some 1000000)) =
     Some \<lparr>nc_time = 120, nc_method = ''stop'', nc_description = ''PM2 Stop'', timeUntil = 59\<rparr>"
proof -
  have e: "elapsedTime 1061000 (Some 1000000) = 61" by (simp add: elapsedTime_def)
  have "(0::int) \<le> 61" by simp
  from crash_status_milestones [OF e this, of None]
  show ?thesis by (simp add: crashSchedule_def)
qed

section \<open>The agents of the dashboard\<close>

lemma agent_ids_setAgent [simp]: "map agent_id (agents (setAgent a st task s)) = map agent_id (agents s)"
  by (simp add: setAgent_def updateAgentStatus_def spread_updates_def status_task_def comp_def)

lemma agent_ids_resetAgents [simp]: "map agent_id (agents (resetAgents s)) = map agent_id (agents s)"
  by (simp add: resetAgents_def comp_def)

lemma agents_addServerLog [simp]: "agents (addServerLog lv m a s) = agents s"
  by (simp add: addServerLog_def)

lemma agents_setTimeout [simp]: "agents (setTimeout cb d s) = agents s"
  by (simp add: setTimeout_def)

lemma agent_ids_detect [simp]:
  "map agent_id (agents (detectAgentFromRawMessage msg s)) = map agent_id (agents s)"
  unfolding detectAgentFromRawMessage_def Let_def
  by (simp split del: if_split add: if_distrib [of agents] if_distrib [of "map agent_id"] cong: if_cong)

lemma agent_ids_log [simp]:
  "map agent_id (agents (updateAgentFromLog logData s)) = map agent_id (agents s)"
proof -
  have p: "map agent_id (agents (updateAgentFromLog_patterns msg s)) = map agent_id (agents s)" for msg s
    unfolding updateAgentFromLog_patterns_def Let_def
    by (simp split del: if_split add: if_distrib [of agents] if_distrib [of "map agent_id"] cong: if_cong)
  have l: "map agent_id (agents (updateAgentFromLog_legacy ld s)) = map agent_id (agents s)" for ld s
    unfolding updateAgentFromLog_legacy_def Let_def
    by (simp split del: if_split add: if_distrib [of agents] if_distrib [of "map agent_id"] cong: if_cong)
  show ?thesis by (simp add: updateAgentFromLog_def p l)
qed

lemma agent_ids_handle [simp]:
  "map agent_id (agents (handle_event e s)) = map agent_id (agents s)"
proof (cases e)
  case (StartMonitoringResult r)
  then show ?thesis by (cases r) simp_all
next
  case (StopMonitoringResult r)
  then show ?thesis by (cases r) simp_all
qed simp_all

lemma agent_ids_fire [simp]: "map agent_id (agents (fire cb s)) = map agent_id (agents s)"
  by (cases cb) simp_all

lemma agent_ids_fire_next [simp]: "map agent_id (agents (fire_next p s)) = map agent_id (agents s)"
  by (simp add: fire_next_def)

declare run_timers.simps [simp del]

lemma agent_ids_run_timers:
  "s' \<in> set (run_timers t s) \<Longrightarrow> map agent_id (agents s') = map agent_id (agents s)"
proof (induction t s rule: run_timers.induct)
  case (1 t s)
  show ?case
  proof (cases "next_due (timers s)")
    case None
    then have "run_timers t s = []" by (subst run_timers.simps) simp
    with "1.prems" show ?thesis by simp
  next
    case (Some p)
    show ?thesis
    proof (cases "fst p \<le> t")
      case True
      with Some have "run_timers t s = fire_next p s # run_timers t (fire_next p s)"
        by (subst run_timers.simps) simp
      with "1.prems" have "s' = fire_next p s \<or> s' \<in> set (run_timers t (fire_next p s))"
        by simp
      then show ?thesis
      proof
        assume "s' = fire_next p s"
        then show ?thesis by simp
      next
        assume "s' \<in> set (run_timers t (fire_next p s))"
        then have "map agent_id (agents s') = map agent_id (agents (fire_next p s))"
          using "1.IH" [OF Some True] by simp
        then show ?thesis by simp
      qed
    next
      case False
      with Some have "run_timers t s = []" by (subst run_timers.simps) simp
      with "1.prems" show ?thesis by simp
    qed
  qed
qed

lemma agent_ids_last:
  "map agent_id (agents (last (s # run_timers t s))) = map agent_id (agents s)"
proof (cases "run_timers t s = []")
  case True
  then show ?thesis by simp
next
  case False
  then have "last (s # run_timers t s) \<in> set (run_timers t s)" by simp
  then show ?thesis by (rule agent_ids_run_timers)
qed

lemma agent_ids_wait:
  assumes "s' \<in> set (wait_trace d s)"
  shows "map agent_id (agents s') = map agent_id (agents s)"
proof -
  from assms have "s' \<in> set (run_timers (clock s + d) s) \<or>
      s' = (last (s # run_timers (clock s + d) s))\<lparr>clock := clock s + d\<rparr>"
    by (auto simp: wait_trace_def Let_def)
  then show ?thesis
  proof
    assume "s' \<in> set (run_timers (clock s + d) s)"
    then show ?thesis by (rule agent_ids_run_timers)
  next
    assume "s' = (last (s # run_timers (clock s + d) s))\<lparr>clock := clock s + d\<rparr>"
    then have "map agent_id (agents s') = map agent_id (agents (last (s # run_timers (clock s + d) s)))"
      by simp
    then show ?thesis by (simp only: agent_ids_last)
  qed
qed

lemma agent_ids_step:
  "s' \<in> set (step_trace st s) \<Longrightarrow> map agent_id (agents s') = map agent_id (agents s)"
proof (cases st)
  case (Wait d)
  assume "s' \<in> set (step_trace st s)"
  with Wait have "s' \<in> set (wait_trace d s)" by simp
  then show ?thesis by (rule agent_ids_wait)
next
  case (Dispatch e)
  assume "s' \<in> set (step_trace st s)"
  with Dispatch show ?thesis by simp
qed

lemma step_trace_nonempty: "step_trace st s \<noteq> []"
  by (cases st) (simp_all add: wait_trace_def Let_def)

lemma agent_ids_exec:
  "s' \<in> set (exec_trace steps s) \<Longrightarrow> map agent_id (agents s') = map agent_id (agents s)"
proof (induction steps arbitrary: s)
  case Nil
  then show ?case by simp
next
  case (Cons st steps)
  have l: "last (s # step_trace st s) \<in> set (step_trace st s)"
    using step_trace_nonempty by simp
  from Cons.prems have "s' \<in> set (step_trace st s) \<or> s' \<in> set (exec_trace steps (last (s # step_trace st s)))"
    by simp
  then show ?case
  proof
    assume "s' \<in> set (step_trace st s)"
    then show ?thesis by (rule agent_ids_step)
  next
    assume "s' \<in> set (exec_trace steps (last (s # step_trace st s)))"
    then have "map agent_id (agents s') = map agent_id (agents (last (s # step_trace st s)))"
      by (rule Cons.IH)
    also have "\<dots> = map agent_id (agents s)"
      using l by (rule agent_ids_step)
    finally show ?thesis .
  qed
qed

text \<open>
  C8. In every state of every run of the component (from the initial state, through
  any events, callbacks and resets) the agents are exactly supervisor, executor and
  evaluator, in this order, and each agent's status is exactly one of idle, working,
  completed and error.
\<close>

theorem agents_fixed_roles:
  assumes "s \<in> set (history steps)"
  shows "map agent_id (agents s) = [js ''supervisor'', js ''executor'', js ''evaluator'']
       \<and> (\<forall>a\<in>set (agents s). length (filter (\<lambda>st. status a = st) [Idle, Working, Completed, Error]) = 1)"
proof
  have "map agent_id (agents s) = map agent_id (agents dashboard_init)"
    using assms agent_ids_exec by (auto simp: history_def)
  then show "map agent_id (agents s) = [js ''supervisor'', js ''executor'', js ''evaluator'']"
    by (simp add: dashboard_init_def initial_agents_def)
next
  show "\<forall>a\<in>set (agents s). length (filter (\<lambda>st. status a = st) [Idle, Working, Completed, Error]) = 1"
  proof
    fix a assume "a \<in> set (agents s)"
    show "length (filter (\<lambda>st. status a = st) [Idle, Working, Completed, Error]) = 1"
      by (cases "status a") simp_all
  qed
qed

theorem agents_fixed_roles_witness:
  "map agent_id (agents (handle_event (StopMonitoringResult Succeeded) dashboard_init)) =
     [js ''supervisor'', js ''executor'', js ''evaluator'']
   \<and> list_all (\<lambda>a. length (filter (\<lambda>st. status a = st) [Idle, Working, Completed, Error]) = 1)
        (agents (handle_event (StopMonitoringResult Succeeded) dashboard_init))"
proof -
  have "handle_event (StopMonitoringResult Succeeded) dashboard_init
          \<in> set (history [Dispatch (StopMonitoringResult Succeeded)])"
    by (simp add: history_def)
  from agents_fixed_roles [OF this] show ?thesis
    by (simp add: list_all_iff)
qed

text \<open>
  C10. \<open>updateAgentStatus\<close> keeps the length of the list, returns every entry whose id
  differs from \<open>agentId\<close> as it was, and replaces every entry whose id is
  \<open>agentId\<close> by its merge with the updates, stamped with the time of the call.
\<close>

theorem updateAgentStatus_frame:
  "length (updateAgentStatus now agentId updates prev) = length prev
   \<and> (\<forall>i < length prev.
        (agent_id (prev ! i) \<noteq> agentId \<longrightarrow> updateAgentStatus now agentId updates prev ! i = prev ! i)
      \<and> (agent_id (prev ! i) = agentId \<longrightarrow>
           updateAgentStatus now agentId updates prev ! i = spread_updates now (prev ! i) updates
         \<and> lastUpdate (updateAgentStatus now agentId updates prev ! i) = Some now))"
  by (simp add: updateAgentStatus_def spread_updates_def)

theorem updateAgentStatus_frame_witness:
  "updateAgentStatus 7 (js ''executor'') (status_task Working (js ''busy'')) initial_agents ! 0
     = initial_agents ! 0
   \<and> updateAgentStatus 7 (js ''executor'') (status_task Working (js ''busy'')) initial_agents ! 1
     = \<lparr>agent_id = js ''executor'', name = js ''Executor Agent'', status = Working,
        currentTask = Some (js ''busy''), lastUpdate = Some 7, agent_output = Some []\<rparr>"
proof -
  have l: "(0::nat) < length initial_agents" "(1::nat) < length initial_agents"
    by (simp_all add: initial_agents_def)
  have i: "agent_id (initial_agents ! 0) \<noteq> js ''executor''" "agent_id (initial_agents ! 1) = js ''executor''"
    by (simp_all add: initial_agents_def js_def)
  from updateAgentStatus_frame [of 7 "js ''executor''" "status_task Working (js ''busy'')" initial_agents] l i
  show ?thesis
    by (simp add: spread_updates_def status_task_def initial_agents_def)
qed

section \<open>The line framer and the log parser\<close>

lemma split_nl_line:
  "newline \<notin> set l \<Longrightarrow> split_nl (l @ newline # rest) = l # split_nl rest"
  by (induction l) auto

lemma split_nl_unlines:
  "\<forall>l\<in>set ls. newline \<notin> set l \<Longrightarrow> split_nl (unlines ls) = ls @ [[]]"
  by (induction ls) (simp_all add: unlines_def split_nl_line)

lemma js_trim_Nil [simp]: "js_trim [] = []"
  by (simp add: js_trim_def)

lemma frame_lines_unlines:
  assumes "\<forall>l\<in>set ls. newline \<notin> set l \<and> js_trim l \<noteq> []"
  shows "frame_lines (unlines ls) = ls"
proof -
  from assms have "split_nl (unlines ls) = ls @ [[]]"
    by (simp add: split_nl_unlines)
  moreover from assms have "filter (\<lambda>line. js_trim line \<noteq> []) ls = ls"
    by (simp add: filter_id_conv)
  ultimately show ?thesis by (simp add: frame_lines_def)
qed

lemma sse_message_stdout [simp]: "map sse_message (on_stdout_data now out) = frame_lines out"
  by (simp add: on_stdout_data_def comp_def)

lemma sse_message_stderr [simp]: "map sse_message (on_stderr_data now out) = frame_lines out"
  by (simp add: on_stderr_data_def comp_def)

lemma emitted_lines_frames:
  "emitted_lines on_stdout_data chunks = concat (map (\<lambda>c. frame_lines (snd c)) chunks)"
  "emitted_lines on_stderr_data chunks = concat (map (\<lambda>c. frame_lines (snd c)) chunks)"
  by (simp_all add: emitted_lines_def map_concat comp_def)

lemma unlines_concat: "unlines (concat lss) = concat (map unlines lss)"
  by (induction lss) (simp_all add: unlines_def)

text \<open>
  C2 (amended). When every chunk of a stream consists of complete lines, each ended by
  a newline and none of them empty or all whitespace, the stdout handler and the stderr
  handler send exactly these lines in order, and the lines sent, with a newline put back
  after each, are the stream.
\<close>

theorem framer_roundtrip_complete_lines:
  assumes "\<forall>c\<in>set lss. \<forall>l\<in>set (snd c). newline \<notin> set l \<and> js_trim l \<noteq> []"
  shows "emitted_lines on_stdout_data (map (\<lambda>c. (fst c, unlines (snd c))) lss) = concat (map snd lss)
       \<and> emitted_lines on_stderr_data (map (\<lambda>c. (fst c, unlines (snd c))) lss) = concat (map snd lss)
       \<and> unlines (emitted_lines on_stdout_data (map (\<lambda>c. (fst c, unlines (snd c))) lss))
           = concat (map (\<lambda>c. unlines (snd c)) lss)
       \<and> unlines (emitted_lines on_stderr_data (map (\<lambda>c. (fst c, unlines (snd c))) lss))
           = concat (map (\<lambda>c. unlines (snd c)) lss)"
proof -
  have f: "concat (map (\<lambda>c. frame_lines (snd c)) (map (\<lambda>c. (fst c, unlines (snd c))) lss))
             = concat (map snd lss)"
    using assms by (induction lss) (simp_all add: frame_lines_unlines)
  have out: "emitted_lines on_stdout_data (map (\<lambda>c. (fst c, unlines (snd c))) lss) = concat (map snd lss)"
    by (simp only: emitted_lines_frames f)
  have err: "emitted_lines on_stderr_data (map (\<lambda>c. (fst c, unlines (snd c))) lss) = concat (map snd lss)"
    by (simp only: emitted_lines_frames f)
  have u: "unlines (concat (map snd lss)) = concat (map (\<lambda>c. unlines (snd c)) lss)"
    by (simp add: unlines_concat comp_def)
  show ?thesis
    by (simp only: out err u simp_thms)
qed

theorem framer_roundtrip_complete_lines_witness:
  "emitted_lines on_stdout_data [(0, unlines [js ''up'', js ''ok'']), (5, unlines [js ''done''])]
     = [js ''up'', js ''ok'', js ''done'']
   \<and> unlines (emitted_lines on_stdout_data [(0, unlines [js ''up'', js ''ok'']), (5, unlines [js ''done''])])
     = unlines [js ''up'', js ''ok''] @ unlines [js ''done'']"
proof -
  have "\<forall>c\<in>set [(0::nat, [js ''up'', js ''ok'']), (5, [js ''done''])].
          \<forall>l\<in>set (snd c). newline \<notin> set l \<and> js_trim l \<noteq> []"
    by (simp add: js_def newline_def js_trim_def isWhiteSpace_def)
  from framer_roundtrip_complete_lines [OF this] show ?thesis by (simp add: unlines_def)
qed

text \<open>
  C2 as stated fails. A line cut by the chunk boundary is sent as two lines, and an
  empty line is not sent at all; with the newlines put back either way the result is
  not the stream.
\<close>

theorem framer_roundtrip_counterexample:
  "emitted_lines on_stdout_data [(0, js ''ab''), (1, js ''c'' @ [newline])] = [js ''ab'', js ''c'']
   \<and> unlines (emitted_lines on_stdout_data [(0, js ''ab''), (1, js ''c'' @ [newline])])
       \<noteq> js ''ab'' @ js ''c'' @ [newline]
   \<and> join_lines (emitted_lines on_stdout_data [(0, js ''ab''), (1, js ''c'' @ [newline])])
       \<noteq> js ''ab'' @ js ''c'' @ [newline]
   \<and> emitted_lines on_stderr_data [(0, js ''a'' @ [newline, newline] @ js ''b'' @ [newline])]
       = [js ''a'', js ''b'']
   \<and> unlines (emitted_lines on_stderr_data [(0, js ''a'' @ [newline, newline] @ js ''b'' @ [newline])])
       \<noteq> js ''a'' @ [newline, newline] @ js ''b'' @ [newline]
   \<and> join_lines (emitted_lines on_stderr_data [(0, js ''a'' @ [newline, newline] @ js ''b'' @ [newline])])
       \<noteq> js ''a'' @ [newline, newline] @ js ''b'' @ [newline]"
  by (simp add: emitted_lines_frames frame_lines_def js_def newline_def js_trim_def
      isWhiteSpace_def unlines_def)

text \<open>
  C7 (amended). Two calls of \<open>parseAgentLog\<close> on the same line both give no event,
  or give events that agree in every field but the timestamp; the timestamp is the
  time of the call.
\<close>

theorem parseAgentLog_same_but_timestamp:
  "map_option (\<lambda>e. e\<lparr>al_timestamp := 0\<rparr>) (parseAgentLog parseFloat t1 line)
     = map_option (\<lambda>e. e\<lparr>al_timestamp := 0\<rparr>) (parseAgentLog parseFloat t2 line)
   \<and> map_option al_timestamp (parseAgentLog parseFloat t1 line)
     = map_option (\<lambda>e. t1) (parseAgentLog parseFloat t1 line)"
  unfolding parseAgentLog_def
  by (simp split del: if_split cong: if_cong
      add: if_distrib [of "map_option (\<lambda>e. e\<lparr>al_timestamp := 0\<rparr>)"]
           if_distrib [of "map_option al_timestamp"] if_distrib [of "map_option (\<lambda>e. t1)"])

text \<open>C7 as stated fails: the same line parsed at two times gives two different events.\<close>

theorem parseAgentLog_counterexample:
  "parseAgentLog (\<lambda>digits. NaN) 1000 (js ''ERROR: disk full'')
     \<noteq> parseAgentLog (\<lambda>digits. NaN) 2000 (js ''ERROR: disk full'')"
  by (simp add: parseAgentLog_def js_def)

section \<open>Starting and stopping the supervised process\<close>

lemma mon_step_flag:
  "(mon_isMonitoring m \<longleftrightarrow> monitoringProcess m \<noteq> None) \<Longrightarrow>
   (mon_isMonitoring (mon_step e m) \<longleftrightarrow> monitoringProcess (mon_step e m) \<noteq> None)"
  by (cases e)
     (auto simp: startMonitoring_def stopMonitoring_begin_def stopMonitoring_resume_def
        on_process_exit_def kill_def
        split: spawn_result.splits kill_result.splits option.splits sum.splits if_splits)

lemma foldl_flag:
  "(mon_isMonitoring m \<longleftrightarrow> monitoringProcess m \<noteq> None) \<Longrightarrow>
   (mon_isMonitoring (foldl (\<lambda>m e. mon_step e m) m evs)
      \<longleftrightarrow> monitoringProcess (foldl (\<lambda>m e. mon_step e m) m evs) \<noteq> None)"
  by (induction evs arbitrary: m) (simp_all add: mon_step_flag)

lemma mon_run_flag: "mon_isMonitoring (mon_run evs) \<longleftrightarrow> monitoringProcess (mon_run evs) \<noteq> None"
  unfolding mon_run_def by (rule foldl_flag) (simp add: monitoring_init_def)

text \<open>
  C3 (amended). In every state the monitoring module can reach, \<open>startMonitoring\<close>
  with a process handle present answers that monitoring is already running and changes
  nothing; so of two calls in a row, the first one spawning, the second is refused and
  one process has been spawned. The \<open>start\<close> action of the crash-test route is never
  refused: with a handle present it sends SIGTERM to that process, drops the handle and
  spawns again.
\<close>

theorem start_already_running:
  "(monitoringProcess (mon_run evs) \<noteq> None \<longrightarrow>
      startMonitoring sp now (mon_run evs) = (already_running, mon_run evs))
   \<and> (monitoringProcess (mon_run evs) = None \<longrightarrow>
        r_success (fst (startMonitoring (Spawned p) now (mon_run evs)))
      \<and> startMonitoring sp' now' (snd (startMonitoring (Spawned p) now (mon_run evs)))
          = (already_running, snd (startMonitoring (Spawned p) now (mon_run evs)))
      \<and> spawn_count (mon_effects (snd (startMonitoring (Spawned p) now (mon_run evs))))
          = spawn_count (mon_effects (mon_run evs)) + 1)
   \<and> (activeTestProcess c = Some old \<and> (k = Delivered \<or> k = NotDelivered) \<longrightarrow>
        c_success (fst (crash_start k (Spawned q) t c))
      \<and> activeTestProcess (snd (crash_start k (Spawned q) t c)) = Some \<lparr>pid = q, killed = False\<rparr>
      \<and> ct_effects (snd (crash_start k (Spawned q) t c))
          = ct_effects c @ (if k = Delivered then [Signal (pid old) SIGTERM] else []) @ [Spawn q]
      \<and> spawn_count (ct_effects (snd (crash_start k (Spawned q) t c)))
          = spawn_count (ct_effects c) + 1)"
proof (intro conjI impI)
  assume "monitoringProcess (mon_run evs) \<noteq> None"
  then have "mon_isMonitoring (mon_run evs)" by (simp add: mon_run_flag)
  then show "startMonitoring sp now (mon_run evs) = (already_running, mon_run evs)"
    by (simp add: startMonitoring_def)
next
  assume "monitoringProcess (mon_run evs) = None"
  then have f: "\<not> mon_isMonitoring (mon_run evs)" by (simp add: mon_run_flag)
  then show "r_success (fst (startMonitoring (Spawned p) now (mon_run evs)))"
    by (simp add: startMonitoring_def)
  from f show "startMonitoring sp' now' (snd (startMonitoring (Spawned p) now (mon_run evs)))
          = (already_running, snd (startMonitoring (Spawned p) now (mon_run evs)))"
    by (simp add: startMonitoring_def)
  from f show "spawn_count (mon_effects (snd (startMonitoring (Spawned p) now (mon_run evs))))
          = spawn_count (mon_effects (mon_run evs)) + 1"
    by (simp add: startMonitoring_def spawn_count_def is_spawn_def)
next
  assume a: "activeTestProcess c = Some old \<and> (k = Delivered \<or> k = NotDelivered)"
  then show "c_success (fst (crash_start k (Spawned q) t c))"
    by (cases k) (simp_all add: crash_start_def kill_def)
  from a show "activeTestProcess (snd (crash_start k (Spawned q) t c)) = Some \<lparr>pid = q, killed = False\<rparr>"
    by (cases k) (simp_all add: crash_start_def kill_def)
  from a show "ct_effects (snd (crash_start k (Spawned q) t c))
          = ct_effects c @ (if k = Delivered then [Signal (pid old) SIGTERM] else []) @ [Spawn q]"
    by (cases k) (simp_all add: crash_start_def kill_def)
  from a show "spawn_count (ct_effects (snd (crash_start k (Spawned q) t c))) = spawn_count (ct_effects c) + 1"
    by (cases k) (simp_all add: crash_start_def kill_def spawn_count_def is_spawn_def)
qed

theorem start_already_running_witness:
  "startMonitoring (Spawned (Some 2)) 20 (mon_run [StartRequest (Spawned (Some 1)) 10])
     = (already_running, mon_run [StartRequest (Spawned (Some 1)) 10])
   \<and> spawn_count (mon_effects (snd (startMonitoring (Spawned (Some 1)) 10 (mon_run [])))) = 1
   \<and> c_success (fst (crash_start Delivered (Spawned (Some 4712)) 2000 running_test))
   \<and> spawn_count (ct_effects (snd (crash_start Delivered (Spawned (Some 4712)) 2000 running_test))) = 2"
proof -
  have h1: "monitoringProcess (mon_run [StartRequest (Spawned (Some 1)) 10]) \<noteq> None"
    by (simp add: mon_run_def monitoring_init_def startMonitoring_def)
  have h2: "monitoringProcess (mon_run []) = None"
    by (simp add: mon_run_def monitoring_init_def)
  have h3: "activeTestProcess running_test = Some \<lparr>pid = Some 4711, killed = False\<rparr>
              \<and> (Delivered = Delivered \<or> Delivered = NotDelivered)"
    by (simp add: running_test_def crash_start_def crash_test_init_def)
  have c: "spawn_count (ct_effects running_test) = 1" "spawn_count (mon_effects (mon_run [])) = 0"
    by (simp_all add: running_test_def crash_start_def crash_test_init_def spawn_count_def
        is_spawn_def mon_run_def monitoring_init_def)
  from start_already_running [where evs = "[StartRequest (Spawned (Some 1)) 10]"
         and sp = "Spawned (Some 2)" and now = 20]
    start_already_running [where evs = "[]" and p = "Some 1" and now = 10]
    start_already_running [where c = running_test and old = "\<lparr>pid = Some 4711, killed = False\<rparr>"
         and k = Delivered and q = "Some 4712" and t = 2000]
    h1 h2 h3 c
  show ?thesis by simp
qed

text \<open>
  C3 as stated fails for the crash-test route: a second \<open>start\<close> succeeds, and two
  processes have been spawned.
\<close>

theorem start_twice_counterexample:
  "c_success (fst (crash_start Delivered (Spawned (Some 4712)) 2000 running_test))
   \<and> ct_effects (snd (crash_start Delivered (Spawned (Some 4712)) 2000 running_test))
       = [Spawn (Some 4711), Signal (Some 4711) SIGTERM, Spawn (Some 4712)]"
  by (simp add: running_test_def crash_start_def crash_test_init_def kill_def)

lemma resume_no_throw:
  "kb = Delivered \<or> kb = NotDelivered \<Longrightarrow>
   fst (stopMonitoring_resume kb m') = stop_succeeded
   \<and> monitoringProcess (snd (stopMonitoring_resume kb m')) = None
   \<and> \<not> mon_isMonitoring (snd (stopMonitoring_resume kb m'))"
  by (auto simp: stopMonitoring_resume_def kill_def split: option.splits)

text \<open>
  The paths of \<open>stopMonitoring\<close>. It answers that monitoring is not running, and
  changes nothing, when the handle is missing or the flag is unset. Otherwise it sends
  SIGTERM and suspends for 2000 ms, and then clears the handle and the flag and
  reports success, whatever happened in between.
\<close>

lemma stop_monitoring_paths:
  "(monitoringProcess m = None \<or> \<not> mon_isMonitoring m \<longrightarrow>
      stopMonitoring ka window kb now m = (not_running, m))
   \<and> (monitoringProcess m = Some p \<and> mon_isMonitoring m \<longrightarrow>
        (ka = Delivered \<longrightarrow>
           stopMonitoring_begin ka now m
             = (Inr (now + 2000),
                m\<lparr>monitoringProcess := Some (p\<lparr>killed := True\<rparr>),
                  mon_effects := mon_effects m @ [Signal (pid p) SIGTERM]\<rparr>))
      \<and> (ka = NotDelivered \<longrightarrow> stopMonitoring_begin ka now m = (Inr (now + 2000), m))
      \<and> ((ka = Delivered \<or> ka = NotDelivered) \<and> (kb = Delivered \<or> kb = NotDelivered) \<longrightarrow>
           fst (stopMonitoring ka window kb now m) = stop_succeeded
         \<and> monitoringProcess (snd (stopMonitoring ka window kb now m)) = None
         \<and> \<not> mon_isMonitoring (snd (stopMonitoring ka window kb now m))))"
proof (intro conjI impI)
  assume "monitoringProcess m = None \<or> \<not> mon_isMonitoring m"
  then show "stopMonitoring ka window kb now m = (not_running, m)"
    by (auto simp: stopMonitoring_def stopMonitoring_begin_def split: option.splits)
next
  assume r: "monitoringProcess m = Some p \<and> mon_isMonitoring m" and k: "ka = Delivered"
  then show "stopMonitoring_begin ka now m
             = (Inr (now + 2000),
                m\<lparr>monitoringProcess := Some (p\<lparr>killed := True\<rparr>),
                  mon_effects := mon_effects m @ [Signal (pid p) SIGTERM]\<rparr>)"
    by (simp add: stopMonitoring_begin_def kill_def)
next
  assume r: "monitoringProcess m = Some p \<and> mon_isMonitoring m" and k: "ka = NotDelivered"
  then show "stopMonitoring_begin ka now m = (Inr (now + 2000), m)"
    by (simp add: stopMonitoring_begin_def kill_def)
next
  assume r: "monitoringProcess m = Some p \<and> mon_isMonitoring m"
    and k: "(ka = Delivered \<or> ka = NotDelivered) \<and> (kb = Delivered \<or> kb = NotDelivered)"
  from r k obtain m1 where b: "stopMonitoring_begin ka now m = (Inr (now + 2000), m1)"
    by (auto simp: stopMonitoring_begin_def kill_def)
  then have s: "stopMonitoring ka window kb now m = stopMonitoring_resume kb (window m1)"
    by (simp add: stopMonitoring_def)
  from k have kb2: "kb = Delivered \<or> kb = NotDelivered" by simp
  from resume_no_throw [OF kb2, of "window m1"]
  show "fst (stopMonitoring ka window kb now m) = stop_succeeded"
    and "monitoringProcess (snd (stopMonitoring ka window kb now m)) = None"
    and "\<not> mon_isMonitoring (snd (stopMonitoring ka window kb now m))"
    by (simp_all add: s)
qed

text \<open>
  A delivered SIGTERM sets \<open>killed\<close>, and \<open>killed\<close> is what the route tests after
  the two seconds, not whether the child has exited. So for every running module,
  when the SIGTERM is delivered and the child is still running after the two seconds,
  the SIGTERM is the only signal the child is sent, whatever a SIGKILL would have done.
\<close>

lemma stop_after_delivered_sigterm:
  assumes "monitoringProcess m = Some p" and "mon_isMonitoring m"
  shows "mon_effects (snd (stopMonitoring Delivered (grace_window StillRunning) kb now m))
           = mon_effects m @ [Signal (pid p) SIGTERM]"
  using assms
  by (simp add: stopMonitoring_def stopMonitoring_begin_def stopMonitoring_resume_def kill_def
      grace_window_def)

text \<open>
  C4. \<open>stop()\<close> is to force-kill the subprocess when it is still alive after the
  two seconds. The route does not do so. Monitoring runs with the child 4242;
  \<open>stopMonitoring\<close> is called, the SIGTERM is delivered, and the child is still
  running after the two seconds (a SIGKILL would be delivered). Then no SIGKILL is
  sent: the route clears the handle and the flag and answers success, the only signal
  sent is the SIGTERM, and the child is alive in the end.
\<close>

theorem stop_leaves_child_alive:
  "stopMonitoring Delivered (grace_window StillRunning) Delivered 100 running_monitor
     = (stop_succeeded,
        running_monitor\<lparr>monitoringProcess := None, mon_isMonitoring := False,
          mon_effects := [Spawn (Some 4242), Signal (Some 4242) SIGTERM]\<rparr>)
   \<and> monitoringProcess running_monitor = Some \<lparr>pid = Some 4242, killed = False\<rparr>
   \<and> alive_after_stop StillRunning (Some 4242)
        (mon_effects
           (snd (stopMonitoring Delivered (grace_window StillRunning) Delivered 100 running_monitor)))"
  by (simp add: stopMonitoring_def stopMonitoring_begin_def stopMonitoring_resume_def kill_def
      grace_window_def alive_after_stop_def running_monitor_def startMonitoring_def
      monitoring_init_def)

section \<open>Reading the incident records\<close>

lemma parse_lines_None: "parse_lines parse ls = None \<longleftrightarrow> (\<exists>l\<in>set ls. parse l = None)"
  by (induction ls) (auto split: option.splits)

lemma parse_lines_Some: "parse_lines parse ls = Some rs \<Longrightarrow> map Some rs = map parse ls"
  by (induction ls arbitrary: rs) (auto split: option.splits)

lemma as_incidents_all:
  "\<forall>v\<in>set vs. \<exists>r. v = JsonIncident r \<Longrightarrow> \<exists>rs. as_incidents vs = Inr rs \<and> map JsonIncident rs = vs"
  by (induction vs rule: as_incidents.induct) auto

lemma as_incidents_fail:
  "\<exists>v\<in>set vs. \<forall>r. v \<noteq> JsonIncident r \<Longrightarrow> as_incidents vs = Inl TypeError"
  by (induction vs rule: as_incidents.induct) (auto split: sum.splits)

lemma stats_of_no_records:
  "readIncidents parse file = [] \<Longrightarrow>
   stats_GET parse getTime now file
     = \<lparr>sr_success = True, sr_error = None, sr_data = baseline, sr_http = 200\<rparr>"
  by (simp add: stats_GET_def calculateStats_values_def calculateStats_def baseline_def)

text \<open>The insertion sort of the examples returns a permutation unless the comparator throws.\<close>

lemma compare_detected_no_throw:
  "a \<noteq> JsonNull \<Longrightarrow> b \<noteq> JsonNull \<Longrightarrow> \<exists>d. compare_detected getTime a b = Inr d"
  by (cases a; cases b) (simp_all add: compare_detected_def detected_time_def)

lemma insert_sorted_perm:
  "\<forall>y\<in>set ys. \<exists>d. cmp x y = Inr d \<Longrightarrow>
   \<exists>zs. insert_sorted cmp x ys = Inr zs \<and> mset zs = add_mset x (mset ys)"
  by (induction ys) (auto split: sum.splits)

lemma sort_into_perm:
  "\<forall>a\<in>set (acc @ xs). \<forall>b\<in>set (acc @ xs). \<exists>d. cmp a b = Inr d \<Longrightarrow>
   \<exists>ys. sort_into cmp acc xs = Inr ys \<and> mset ys = mset acc + mset xs"
proof (induction xs arbitrary: acc)
  case Nil
  then show ?case by simp
next
  case (Cons x xs)
  then have "\<forall>y\<in>set acc. \<exists>d. cmp x y = Inr d" by simp
  with insert_sorted_perm [where cmp = cmp and x = x and ys = acc]
  obtain zs where zs: "insert_sorted cmp x acc = Inr zs" "mset zs = add_mset x (mset acc)"
    by blast
  from zs(2) have "set_mset (mset zs) = set_mset (add_mset x (mset acc))" by simp
  then have "set zs = insert x (set acc)" by simp
  then have "set (zs @ xs) = set (acc @ x # xs)" by auto
  with Cons.prems have "\<forall>a\<in>set (zs @ xs). \<forall>b\<in>set (zs @ xs). \<exists>d. cmp a b = Inr d"
    by (simp only:)
  from Cons.IH [OF this]
  obtain ys where ys: "sort_into cmp zs xs = Inr ys" "mset ys = mset zs + mset xs"
    by blast
  from zs ys show ?case by simp
qed

lemma insertion_sort_perm:
  "JsonNull \<notin> set xs \<Longrightarrow>
   \<exists>ys. insertion_sort (compare_detected getTime) xs = Inr ys \<and> mset ys = mset xs"
proof -
  assume n: "JsonNull \<notin> set xs"
  have "\<forall>a\<in>set ([] @ xs). \<forall>b\<in>set ([] @ xs). \<exists>d. compare_detected getTime a b = Inr d"
  proof (intro ballI)
    fix a b assume "a \<in> set ([] @ xs)" "b \<in> set ([] @ xs)"
    with n have "a \<noteq> JsonNull" "b \<noteq> JsonNull" by auto
    then show "\<exists>d. compare_detected getTime a b = Inr d" by (rule compare_detected_no_throw)
  qed
  with sort_into_perm [where cmp = "compare_detected getTime" and acc = "[]" and xs = xs]
  show ?thesis by (simp add: insertion_sort_def)
qed

text \<open>
  C5 (amended). Let the engine's sort return a permutation of an array that holds no
  \<open>null\<close>. The incident listing answers a missing file and a file with a line that
  does not parse with the same failure (no success, an error message, no data, count
  0); the statistics read answers both as it answers no records (success, the
  baseline, no error). When every line parses and none to \<open>null\<close>, the listing holds
  every value of the file. When every line parses to an incident record, the
  statistics are those of all the records of the file, with success; when every line
  parses and one of them to something that is not an incident record, the statistics
  read answers its own failure (no success, an error message, zeros).
\<close>

theorem incident_reads:
  assumes sorts: "\<And>xs. JsonNull \<notin> set xs \<Longrightarrow>
            \<exists>ys. engine_sort (compare_detected getTime) xs = Inr ys \<and> mset ys = mset xs"
  shows
  "incidents_GET parse getTime engine_sort None = incidents_failure
   \<and> stats_GET parse getTime now None
       = \<lparr>sr_success = True, sr_error = None, sr_data = baseline, sr_http = 200\<rparr>
   \<and> ((\<exists>l\<in>set (read_lines content). parse l = None) \<longrightarrow>
         incidents_GET parse getTime engine_sort (Some content) = incidents_failure
       \<and> stats_GET parse getTime now (Some content)
           = \<lparr>sr_success = True, sr_error = None, sr_data = baseline, sr_http = 200\<rparr>)
   \<and> ((\<forall>l\<in>set (read_lines content). parse l \<noteq> None \<and> parse l \<noteq> Some JsonNull) \<longrightarrow>
         ir_success (incidents_GET parse getTime engine_sort (Some content))
       \<and> mset (map Some (ir_data (incidents_GET parse getTime engine_sort (Some content))))
           = mset (map parse (read_lines content))
       \<and> ir_count (incidents_GET parse getTime engine_sort (Some content))
           = length (read_lines content))
   \<and> ((\<forall>l\<in>set (read_lines content). \<exists>r. parse l = Some (JsonIncident r)) \<longrightarrow>
         (\<exists>rs. map (\<lambda>r. Some (JsonIncident r)) rs = map parse (read_lines content)
            \<and> stats_GET parse getTime now (Some content)
                = \<lparr>sr_success = True, sr_error = None,
                   sr_data = calculateStats getTime now rs, sr_http = 200\<rparr>))
   \<and> ((\<forall>l\<in>set (read_lines content). parse l \<noteq> None)
        \<and> (\<exists>l\<in>set (read_lines content). \<forall>r. parse l \<noteq> Some (JsonIncident r)) \<longrightarrow>
         stats_GET parse getTime now (Some content) = stats_failure)"
proof (intro conjI impI)
  show "incidents_GET parse getTime engine_sort None = incidents_failure"
    by (simp add: incidents_GET_def)
  show "stats_GET parse getTime now None
       = \<lparr>sr_success = True, sr_error = None, sr_data = baseline, sr_http = 200\<rparr>"
    by (rule stats_of_no_records) (simp add: readIncidents_def)
next
  assume "\<exists>l\<in>set (read_lines content). parse l = None"
  then have n: "parse_lines parse (read_lines content) = None"
    by (simp add: parse_lines_None)
  then show "incidents_GET parse getTime engine_sort (Some content) = incidents_failure"
    by (simp add: incidents_GET_def)
  from n show "stats_GET parse getTime now (Some content)
           = \<lparr>sr_success = True, sr_error = None, sr_data = baseline, sr_http = 200\<rparr>"
    by (intro stats_of_no_records) (simp add: readIncidents_def)
next
  assume a: "\<forall>l\<in>set (read_lines content). parse l \<noteq> None \<and> parse l \<noteq> Some JsonNull"
  then have "parse_lines parse (read_lines content) \<noteq> None"
    by (simp add: parse_lines_None)
  then obtain vs where vs: "parse_lines parse (read_lines content) = Some vs" by auto
  then have m: "map Some vs = map parse (read_lines content)" by (rule parse_lines_Some)
  then have len: "length vs = length (read_lines content)"
    by (metis length_map)
  have "JsonNull \<notin> set vs"
  proof
    assume "JsonNull \<in> set vs"
    then have "Some JsonNull \<in> set (map Some vs)" by simp
    then have "Some JsonNull \<in> parse ` set (read_lines content)" by (simp add: m)
    with a show False by force
  qed
  from sorts [OF this] obtain ys
    where ys: "engine_sort (compare_detected getTime) vs = Inr ys" "mset ys = mset vs"
    by blast
  from vs ys show "ir_success (incidents_GET parse getTime engine_sort (Some content))"
    by (simp add: incidents_GET_def)
  have "mset (map Some ys) = mset (map Some vs)"
    using ys(2) by (metis mset_map)
  with vs ys m show "mset (map Some (ir_data (incidents_GET parse getTime engine_sort (Some content))))
           = mset (map parse (read_lines content))"
    by (simp add: incidents_GET_def)
  have "length ys = length vs"
    using ys(2) by (metis size_mset)
  with vs ys len show "ir_count (incidents_GET parse getTime engine_sort (Some content))
           = length (read_lines content)"
    by (simp add: incidents_GET_def)
next
  assume a: "\<forall>l\<in>set (read_lines content). \<exists>r. parse l = Some (JsonIncident r)"
  then have "parse_lines parse (read_lines content) \<noteq> None"
    by (auto simp: parse_lines_None)
  then obtain vs where vs: "parse_lines parse (read_lines content) = Some vs" by auto
  then have m: "map Some vs = map parse (read_lines content)" by (rule parse_lines_Some)
  have "\<forall>v\<in>set vs. \<exists>r. v = JsonIncident r"
  proof
    fix v assume "v \<in> set vs"
    then have "Some v \<in> set (map Some vs)" by simp
    then have "Some v \<in> parse ` set (read_lines content)" by (simp add: m)
    with a show "\<exists>r. v = JsonIncident r" by force
  qed
  from as_incidents_all [OF this] obtain rs
    where rs: "as_incidents vs = Inr rs" "map JsonIncident rs = vs" by blast
  have "map (\<lambda>r. Some (JsonIncident r)) rs = map Some (map JsonIncident rs)"
    by simp
  also have "\<dots> = map parse (read_lines content)"
    by (simp only: rs(2) m)
  finally have 1: "map (\<lambda>r. Some (JsonIncident r)) rs = map parse (read_lines content)" .
  from vs rs have 2: "stats_GET parse getTime now (Some content)
                = \<lparr>sr_success = True, sr_error = None,
                   sr_data = calculateStats getTime now rs, sr_http = 200\<rparr>"
    by (simp add: stats_GET_def calculateStats_values_def readIncidents_def)
  from 1 2 show "\<exists>rs. map (\<lambda>r. Some (JsonIncident r)) rs = map parse (read_lines content)
            \<and> stats_GET parse getTime now (Some content)
                = \<lparr>sr_success = True, sr_error = None,
                   sr_data = calculateStats getTime now rs, sr_http = 200\<rparr>"
    by blast
next
  assume a: "(\<forall>l\<in>set (read_lines content). parse l \<noteq> None)
        \<and> (\<exists>l\<in>set (read_lines content). \<forall>r. parse l \<noteq> Some (JsonIncident r))"
  then have "parse_lines parse (read_lines content) \<noteq> None"
    by (simp add: parse_lines_None)
  then obtain vs where vs: "parse_lines parse (read_lines content) = Some vs" by auto
  then have m: "map Some vs = map parse (read_lines content)" by (rule parse_lines_Some)
  from a obtain l where l: "l \<in> set (read_lines content)" "\<forall>r. parse l \<noteq> Some (JsonIncident r)"
    by blast
  then have "parse l \<in> set (map Some vs)" by (simp add: m)
  then obtain v where v: "v \<in> set vs" "parse l = Some v" by auto
  with l have "\<forall>r. v \<noteq> JsonIncident r" by auto
  with v have "\<exists>v\<in>set vs. \<forall>r. v \<noteq> JsonIncident r" by blast
  then have "as_incidents vs = Inl TypeError" by (rule as_incidents_fail)
  with vs show "stats_GET parse getTime now (Some content) = stats_failure"
    by (simp add: stats_GET_def calculateStats_values_def readIncidents_def)
qed

lemma dropWhile_plain: "xs \<noteq> [] \<Longrightarrow> \<not> P (hd xs) \<Longrightarrow> dropWhile P xs = xs"
  by (cases xs) simp_all

lemma js_trim_plain:
  assumes "s \<noteq> []" "\<not> isWhiteSpace (hd s)" "\<not> isWhiteSpace (last s)"
  shows "js_trim s = s"
proof -
  from assms have 1: "dropWhile isWhiteSpace s = s"
    by (simp add: dropWhile_plain)
  from assms have "rev s \<noteq> []" "\<not> isWhiteSpace (hd (rev s))"
    by (simp_all add: hd_rev)
  then have 2: "dropWhile isWhiteSpace (rev s) = rev s"
    by (rule dropWhile_plain)
  show ?thesis by (simp add: js_trim_def 1 2)
qed

lemma split_nl_plain: "newline \<notin> set l \<Longrightarrow> split_nl l = [l]"
  by (induction l) auto

lemma read_lines_one:
  assumes "a \<noteq> []" "newline \<notin> set a" "\<not> isWhiteSpace (hd a)" "\<not> isWhiteSpace (last a)"
  shows "read_lines a = [a]"
  using assms by (simp add: read_lines_def js_trim_plain split_nl_plain)

lemma read_lines_two:
  assumes "a \<noteq> []" "newline \<notin> set a" "\<not> isWhiteSpace (hd a)"
    and "b \<noteq> []" "newline \<notin> set b" "\<not> isWhiteSpace (last b)"
  shows "read_lines (a @ [newline] @ b) = [a, b]"
proof -
  from assms have "js_trim (a @ [newline] @ b) = a @ [newline] @ b"
    by (intro js_trim_plain) simp_all
  moreover from assms have "split_nl (a @ newline # b) = [a, b]"
    by (simp add: split_nl_line split_nl_plain)
  ultimately show ?thesis
    using assms by (simp add: read_lines_def)
qed

lemma example_line_plain:
  "example_line \<noteq> []" "newline \<notin> set example_line"
  "\<not> isWhiteSpace (hd example_line)" "\<not> isWhiteSpace (last example_line)"
  "example_line \<noteq> js ''null''" "example_line \<noteq> js ''{}''"
  "js ''oops'' \<noteq> example_line" "js ''not json'' \<noteq> example_line"
  by (simp_all add: example_line_def js_def newline_def isWhiteSpace_def)

lemma short_lines_plain:
  "js ''oops'' \<noteq> []" "newline \<notin> set (js ''oops'')" "\<not> isWhiteSpace (last (js ''oops''))"
  "js ''{}'' \<noteq> []" "newline \<notin> set (js ''{}'')"
  "\<not> isWhiteSpace (hd (js ''{}''))" "\<not> isWhiteSpace (last (js ''{}''))"
  "js ''not json'' \<noteq> []" "newline \<notin> set (js ''not json'')"
  "\<not> isWhiteSpace (hd (js ''not json''))" "\<not> isWhiteSpace (last (js ''not json''))"
  "js ''oops'' \<noteq> js ''null''" "js ''oops'' \<noteq> js ''{}''"
  "js ''not json'' \<noteq> js ''null''" "js ''not json'' \<noteq> js ''{}''"
  "js ''{}'' \<noteq> js ''null''"
  by (simp_all add: js_def newline_def isWhiteSpace_def)

lemma read_lines_examples:
  "read_lines (example_line @ [newline] @ js ''oops'') = [example_line, js ''oops'']"
  "read_lines (example_line @ [newline] @ example_line) = [example_line, example_line]"
  "read_lines (js ''{}'') = [js ''{}'']"
  "read_lines (js ''not json'') = [js ''not json'']"
  by (simp_all only: read_lines_one read_lines_two example_line_plain short_lines_plain
      not_False_eq_True)

theorem incident_reads_witness:
  "incidents_GET example_parse example_getTime insertion_sort
      (Some (example_line @ [newline] @ js ''oops'')) = incidents_failure
   \<and> sr_success (stats_GET example_parse example_getTime 0
        (Some (example_line @ [newline] @ js ''oops'')))
   \<and> ir_count (incidents_GET example_parse example_getTime insertion_sort
        (Some (example_line @ [newline] @ example_line))) = 2
   \<and> stats_GET example_parse example_getTime 0 (Some (example_line @ [newline] @ example_line))
       = \<lparr>sr_success = True, sr_error = None,
          sr_data = calculateStats example_getTime 0 [example_incident, example_incident],
          sr_http = 200\<rparr>
   \<and> ir_count (incidents_GET example_parse example_getTime insertion_sort (Some (js ''{}''))) = 1
   \<and> stats_GET example_parse example_getTime 0 (Some (js ''{}'')) = stats_failure"
proof -
  note p = example_parse_def example_line_plain short_lines_plain
  have s: "\<And>xs. JsonNull \<notin> set xs \<Longrightarrow>
            \<exists>ys. insertion_sort (compare_detected example_getTime) xs = Inr ys \<and> mset ys = mset xs"
    by (rule insertion_sort_perm)
  have h1: "\<exists>l\<in>set (read_lines (example_line @ [newline] @ js ''oops'')). example_parse l = None"
    unfolding read_lines_examples by (simp add: p)
  have h2: "\<forall>l\<in>set (read_lines (example_line @ [newline] @ example_line)).
              example_parse l \<noteq> None \<and> example_parse l \<noteq> Some JsonNull"
    unfolding read_lines_examples by (simp add: p)
  have h3: "\<forall>l\<in>set (read_lines (example_line @ [newline] @ example_line)).
              \<exists>r. example_parse l = Some (JsonIncident r)"
    unfolding read_lines_examples by (simp add: p)
  have h4: "\<forall>l\<in>set (read_lines (js ''{}'')). example_parse l \<noteq> None \<and> example_parse l \<noteq> Some JsonNull"
    unfolding read_lines_examples by (simp add: p)
  have h5: "(\<forall>l\<in>set (read_lines (js ''{}'')). example_parse l \<noteq> None)
        \<and> (\<exists>l\<in>set (read_lines (js ''{}'')). \<forall>r. example_parse l \<noteq> Some (JsonIncident r))"
    unfolding read_lines_examples by (simp add: p)
  have e: "map example_parse [example_line, example_line]
             = [Some (JsonIncident example_incident), Some (JsonIncident example_incident)]"
    by (simp add: p)
  from incident_reads [where engine_sort = insertion_sort and getTime = example_getTime
         and parse = example_parse and now = 0
         and content = "example_line @ [newline] @ js ''oops''", OF s] h1
  have 1: "incidents_GET example_parse example_getTime insertion_sort
      (Some (example_line @ [newline] @ js ''oops'')) = incidents_failure"
    and 2: "sr_success (stats_GET example_parse example_getTime 0
        (Some (example_line @ [newline] @ js ''oops'')))"
    by simp_all
  from incident_reads [where engine_sort = insertion_sort and getTime = example_getTime
         and parse = example_parse and now = 0
         and content = "example_line @ [newline] @ example_line", OF s] h2 h3
  have 3: "ir_count (incidents_GET example_parse example_getTime insertion_sort
        (Some (example_line @ [newline] @ example_line))) = 2"
    and 4: "stats_GET example_parse example_getTime 0 (Some (example_line @ [newline] @ example_line))
       = \<lparr>sr_success = True, sr_error = None,
          sr_data = calculateStats example_getTime 0 [example_incident, example_incident],
          sr_http = 200\<rparr>"
    unfolding read_lines_examples e by (auto simp: map_eq_Cons_conv)
  from incident_reads [where engine_sort = insertion_sort and getTime = example_getTime
         and parse = example_parse and now = 0 and content = "js ''{}''", OF s] h4 h5
  have 5: "ir_count (incidents_GET example_parse example_getTime insertion_sort (Some (js ''{}''))) = 1"
    and 6: "stats_GET example_parse example_getTime 0 (Some (js ''{}'')) = stats_failure"
    unfolding read_lines_examples by simp_all
  from 1 2 3 4 5 6 show ?thesis by simp
qed

text \<open>
  With the insertion sort in the place of the engine's, two lines \<open>null\<close> parse, the
  comparator throws on them, and the listing answers its failure.
\<close>

lemma listing_of_null_lines:
  "incidents_GET example_parse example_getTime insertion_sort
     (Some (js ''null'' @ [newline] @ js ''null'')) = incidents_failure"
proof -
  have n: "js ''null'' \<noteq> []" "newline \<notin> set (js ''null'')"
    "\<not> isWhiteSpace (hd (js ''null''))" "\<not> isWhiteSpace (last (js ''null''))"
    by (simp_all add: js_def newline_def isWhiteSpace_def)
  have "read_lines (js ''null'' @ [newline] @ js ''null'') = [js ''null'', js ''null'']"
    by (simp only: read_lines_two n not_False_eq_True)
  then show ?thesis
    by (simp add: incidents_GET_def example_parse_def insertion_sort_def compare_detected_def
        detected_time_def)
qed

text \<open>
  C5 as stated fails for the statistics read: a file whose only line does not parse
  is answered with success and no error.
\<close>

theorem stats_malformed_counterexample:
  "sr_success (stats_GET example_parse example_getTime 0 (Some (js ''not json'')))
   \<and> sr_error (stats_GET example_parse example_getTime 0 (Some (js ''not json''))) = None
   \<and> sr_http (stats_GET example_parse example_getTime 0 (Some (js ''not json''))) = 200
   \<and> sr_data (stats_GET example_parse example_getTime 0 (Some (js ''not json''))) = baseline"
proof -
  have "example_parse (js ''not json'') = None"
    by (simp add: example_parse_def example_line_plain short_lines_plain)
  then have "readIncidents example_parse (Some (js ''not json'')) = []"
    by (simp add: readIncidents_def read_lines_examples)
  then show ?thesis
    by (simp add: stats_GET_def calculateStats_values_def calculateStats_def baseline_def)
qed

section \<open>The scenario of the four lines\<close>

text \<open>The branch of \<open>detectAgentFromRawMessage\<close> that each of the four lines takes.\<close>

lemma detect_line1:
  "detectAgentFromRawMessage (js ''LLM diagnosis: DOWN confidence: 0.92'') s =
     setTimeout RawPrepareExecutor 1500
       ((setAgent (js ''supervisor'') Working (emoji_alarm @ js '' Server DOWN detected!'') s)
          \<lparr>serverStatus := SrvDown\<rparr>)"
  by (simp add: detectAgentFromRawMessage_def js_def emoji_robot_def)

lemma detect_line2:
  "detectAgentFromRawMessage (js ''Executor: running PM2 restart'') s =
     setAgent (js ''supervisor'') Completed (js ''Analysis complete - repair needed'')
       (setAgent (js ''executor'') Working (emoji_wrench @ js '' Executing repair...'') s)"
  by (simp add: detectAgentFromRawMessage_def js_def emoji_robot_def)

lemma detect_line3:
  "detectAgentFromRawMessage (js ''POST-REPAIR Verification passed'') s =
     setTimeout RawCompleteExecutor 1000
       (setAgent (js ''evaluator'') Working (js ''Verifying repair success...'') s)"
  by (simp add: detectAgentFromRawMessage_def js_def emoji_robot_def)

lemma detect_line4:
  "detectAgentFromRawMessage (js ''MONITORING CYCLE SUMMARY PASSED'') s =
     setTimeout RawWorkflowComplete 1500
       (setAgent (js ''evaluator'') Completed (emoji_check @ js '' Verification complete!'') s)"
  by (simp add: detectAgentFromRawMessage_def js_def emoji_robot_def)

lemma role_names_differ:
  "js ''supervisor'' \<noteq> js ''executor''" "js ''supervisor'' \<noteq> js ''evaluator''"
  "js ''executor'' \<noteq> js ''evaluator''" "js ''executor'' \<noteq> js ''supervisor''"
  "js ''evaluator'' \<noteq> js ''supervisor''" "js ''evaluator'' \<noteq> js ''executor''"
  by (simp_all add: js_def)

lemma idle_tasks:
  "getIdleTask (js ''supervisor'') = js ''Monitoring server health...''"
  "getIdleTask (js ''executor'') = js ''Awaiting repair instructions...''"
  "getIdleTask (js ''evaluator'') = js ''Ready to verify repairs...''"
  by (simp_all add: getIdleTask_def role_names_differ)

lemma tasks_differ:
  "emoji_alarm @ js '' Server DOWN detected!'' \<noteq> js ''Monitoring server health...''"
  "js ''Analysis complete - repair needed'' \<noteq> js ''Monitoring server health...''"
  "emoji_wrench @ js '' Executing repair...'' \<noteq> js ''Awaiting repair instructions...''"
  "js ''Preparing repair strategy...'' \<noteq> js ''Awaiting repair instructions...''"
  "js ''Repair execution complete'' \<noteq> js ''Awaiting repair instructions...''"
  "js ''Verifying repair success...'' \<noteq> js ''Ready to verify repairs...''"
  "emoji_check @ js '' Verification complete!'' \<noteq> js ''Ready to verify repairs...''"
  by (simp_all add: js_def emoji_alarm_def emoji_wrench_def emoji_check_def)

lemmas exec_defs = history_def scenario_def wait_trace_def Let_def detect_line1 detect_line2
  detect_line3 detect_line4 fire_next_def setAgent_def setTimeout_def resetAgents_def
  addServerLog_def updateAgentStatus_def spread_updates_def status_task_def
  dashboard_init_def initial_agents_def view_def status_of_def all_idle_def
  role_names_differ idle_tasks tasks_differ

text \<open>
  The run, case by case: which callbacks are due in which gap decides the order of the
  steps. The callback that prepares the executor (set by the first line) runs in the
  first gap, or in the second, or after the third line; there it runs after or before
  the callback that completes the executor (set by the third line). Each lemma lists
  the view of every state of the run.
\<close>

lemma scenario_prepare_in_gap1_a:
  assumes "1500 \<le> g1" "1000 \<le> g3"
  shows "map view (history (scenario g1 g2 g3)) =
     [(SrvUnknown, Some Idle, Some Idle, Some Idle, None, True, True),
      (SrvDown, Some Working, Some Idle, Some Idle, None, False, False),
      (SrvDown, Some Working, Some Working, Some Idle, None, True, False),
      (SrvDown, Some Working, Some Working, Some Idle, None, True, False),
      (SrvDown, Some Completed, Some Working, Some Idle, None, True, False),
      (SrvDown, Some Completed, Some Working, Some Idle, None, True, False),
      (SrvDown, Some Completed, Some Working, Some Working, None, False, False),
      (SrvDown, Some Completed, Some Completed, Some Working, None, True, False),
      (SrvDown, Some Completed, Some Completed, Some Working, None, True, False),
      (SrvDown, Some Completed, Some Completed, Some Completed, None, False, False),
      (SrvDown, Some Completed, Some Completed, Some Completed, Some (js ''Monitoring cycle complete''), False, False),
      (SrvDown, Some Idle, Some Idle, Some Idle, None, True, True),
      (SrvDown, Some Idle, Some Idle, Some Idle, None, True, True)]"
  using assms by (simp add: exec_defs run_timers.simps split del: if_split)

lemma scenario_prepare_in_gap1_b:
  assumes "1500 \<le> g1" "g3 < 1000"
  shows "map view (history (scenario g1 g2 g3)) =
     [(SrvUnknown, Some Idle, Some Idle, Some Idle, None, True, True),
      (SrvDown, Some Working, Some Idle, Some Idle, None, False, False),
      (SrvDown, Some Working, Some Working, Some Idle, None, True, False),
      (SrvDown, Some Working, Some Working, Some Idle, None, True, False),
      (SrvDown, Some Completed, Some Working, Some Idle, None, True, False),
      (SrvDown, Some Completed, Some Working, Some Idle, None, True, False),
      (SrvDown, Some Completed, Some Working, Some Working, None, False, False),
      (SrvDown, Some Completed, Some Working, Some Working, None, False, False),
      (SrvDown, Some Completed, Some Working, Some Completed, None, False, False),
      (SrvDown, Some Completed, Some Completed, Some Completed, None, False, False),
      (SrvDown, Some Completed, Some Completed, Some Completed, Some (js ''Monitoring cycle complete''), False, False),
      (SrvDown, Some Idle, Some Idle, Some Idle, None, True, True),
      (SrvDown, Some Idle, Some Idle, Some Idle, None, True, True)]"
  using assms by (simp add: exec_defs run_timers.simps split del: if_split)

lemma scenario_prepare_in_gap2_a:
  assumes "g1 < 1500" "1500 \<le> g1 + g2" "1000 \<le> g3"
  shows "map view (history (scenario g1 g2 g3)) =
     [(SrvUnknown, Some Idle, Some Idle, Some Idle, None, True, True),
      (SrvDown, Some Working, Some Idle, Some Idle, None, False, False),
      (SrvDown, Some Working, Some Idle, Some Idle, None, False, False),
      (SrvDown, Some Completed, Some Working, Some Idle, None, False, False),
      (SrvDown, Some Completed, Some Working, Some Idle, None, True, False),
      (SrvDown, Some Completed, Some Working, Some Idle, None, True, False),
      (SrvDown, Some Completed, Some Working, Some Working, None, False, False),
      (SrvDown, Some Completed, Some Completed, Some Working, None, True, False),
      (SrvDown, Some Completed, Some Completed, Some Working, None, True, False),
      (SrvDown, Some Completed, Some Completed, Some Completed, None, False, False),
      (SrvDown, Some Completed, Some Completed, Some Completed, Some (js ''Monitoring cycle complete''), False, False),
      (SrvDown, Some Idle, Some Idle, Some Idle, None, True, True),
      (SrvDown, Some Idle, Some Idle, Some Idle, None, True, True)]"
  using assms by (simp add: exec_defs run_timers.simps split del: if_split)

lemma scenario_prepare_in_gap2_b:
  assumes "g1 < 1500" "1500 \<le> g1 + g2" "g3 < 1000"
  shows "map view (history (scenario g1 g2 g3)) =
     [(SrvUnknown, Some Idle, Some Idle, Some Idle, None, True, True),
      (SrvDown, Some Working, Some Idle, Some Idle, None, False, False),
      (SrvDown, Some Working, Some Idle, Some Idle, None, False, False),
      (SrvDown, Some Completed, Some Working, Some Idle, None, False, False),
      (SrvDown, Some Completed, Some Working, Some Idle, None, True, False),
      (SrvDown, Some Completed, Some Working, Some Idle, None, True, False),
      (SrvDown, Some Completed, Some Working, Some Working, None, False, False),
      (SrvDown, Some Completed, Some Working, Some Working, None, False, False),
      (SrvDown, Some Completed, Some Working, Some Completed, None, False, False),
      (SrvDown, Some Completed, Some Completed, Some Completed, None, False, False),
      (SrvDown, Some Completed, Some Completed, Some Completed, Some (js ''Monitoring cycle complete''), False, False),
      (SrvDown, Some Idle, Some Idle, Some Idle, None, True, True),
      (SrvDown, Some Idle, Some Idle, Some Idle, None, True, True)]"
  using assms by (simp add: exec_defs run_timers.simps split del: if_split)

lemma scenario_completion_first_a:
  assumes "g1 + g2 < 500" "1500 \<le> g1 + g2 + g3"
  shows "map view (history (scenario g1 g2 g3)) =
     [(SrvUnknown, Some Idle, Some Idle, Some Idle, None, True, True),
      (SrvDown, Some Working, Some Idle, Some Idle, None, False, False),
      (SrvDown, Some Working, Some Idle, Some Idle, None, False, False),
      (SrvDown, Some Completed, Some Working, Some Idle, None, False, False),
      (SrvDown, Some Completed, Some Working, Some Idle, None, False, False),
      (SrvDown, Some Completed, Some Working, Some Working, None, False, False),
      (SrvDown, Some Completed, Some Completed, Some Working, None, False, False),
      (SrvDown, Some Completed, Some Working, Some Working, None, True, False),
      (SrvDown, Some Completed, Some Working, Some Working, None, True, False),
      (SrvDown, Some Completed, Some Working, Some Completed, None, False, False),
      (SrvDown, Some Completed, Some Working, Some Completed, Some (js ''Monitoring cycle complete''), False, False),
      (SrvDown, Some Idle, Some Idle, Some Idle, None, True, True),
      (SrvDown, Some Idle, Some Idle, Some Idle, None, True, True)]"
  using assms by (simp add: exec_defs run_timers.simps split del: if_split)

lemma scenario_completion_first_b:
  assumes "g1 + g2 < 500" "1000 \<le> g3" "g1 + g2 + g3 < 1500"
  shows "map view (history (scenario g1 g2 g3)) =
     [(SrvUnknown, Some Idle, Some Idle, Some Idle, None, True, True),
      (SrvDown, Some Working, Some Idle, Some Idle, None, False, False),
      (SrvDown, Some Working, Some Idle, Some Idle, None, False, False),
      (SrvDown, Some Completed, Some Working, Some Idle, None, False, False),
      (SrvDown, Some Completed, Some Working, Some Idle, None, False, False),
      (SrvDown, Some Completed, Some Working, Some Working, None, False, False),
      (SrvDown, Some Completed, Some Completed, Some Working, None, False, False),
      (SrvDown, Some Completed, Some Completed, Some Working, None, False, False),
      (SrvDown, Some Completed, Some Completed, Some Completed, None, False, False),
      (SrvDown, Some Completed, Some Working, Some Completed, None, False, False),
      (SrvDown, Some Completed, Some Working, Some Completed, Some (js ''Monitoring cycle complete''), False, False),
      (SrvDown, Some Idle, Some Idle, Some Idle, None, True, True),
      (SrvDown, Some Idle, Some Idle, Some Idle, None, True, True)]"
  using assms by (simp add: exec_defs run_timers.simps split del: if_split)

lemma scenario_completion_first_c:
  assumes "g1 + g2 < 500" "g3 < 1000"
  shows "map view (history (scenario g1 g2 g3)) =
     [(SrvUnknown, Some Idle, Some Idle, Some Idle, None, True, True),
      (SrvDown, Some Working, Some Idle, Some Idle, None, False, False),
      (SrvDown, Some Working, Some Idle, Some Idle, None, False, False),
      (SrvDown, Some Completed, Some Working, Some Idle, None, False, False),
      (SrvDown, Some Completed, Some Working, Some Idle, None, False, False),
      (SrvDown, Some Completed, Some Working, Some Working, None, False, False),
      (SrvDown, Some Completed, Some Working, Some Working, None, False, False),
      (SrvDown, Some Completed, Some Working, Some Completed, None, False, False),
      (SrvDown, Some Completed, Some Completed, Some Completed, None, False, False),
      (SrvDown, Some Completed, Some Working, Some Completed, None, False, False),
      (SrvDown, Some Completed, Some Working, Some Completed, Some (js ''Monitoring cycle complete''), False, False),
      (SrvDown, Some Idle, Some Idle, Some Idle, None, True, True),
      (SrvDown, Some Idle, Some Idle, Some Idle, None, True, True)]"
  using assms by (simp add: exec_defs run_timers.simps split del: if_split)

lemma scenario_prepare_then_completion_a:
  assumes "500 \<le> g1 + g2" "g1 + g2 < 1500" "1000 \<le> g3"
  shows "map view (history (scenario g1 g2 g3)) =
     [(SrvUnknown, Some Idle, Some Idle, Some Idle, None, True, True),
      (SrvDown, Some Working, Some Idle, Some Idle, None, False, False),
      (SrvDown, Some Working, Some Idle, Some Idle, None, False, False),
      (SrvDown, Some Completed, Some Working, Some Idle, None, False, False),
      (SrvDown, Some Completed, Some Working, Some Idle, None, False, False),
      (SrvDown, Some Completed, Some Working, Some Working, None, False, False),
      (SrvDown, Some Completed, Some Working, Some Working, None, False, False),
      (SrvDown, Some Completed, Some Completed, Some Working, None, True, False),
      (SrvDown, Some Completed, Some Completed, Some Working, None, True, False),
      (SrvDown, Some Completed, Some Completed, Some Completed, None, False, False),
      (SrvDown, Some Completed, Some Completed, Some Completed, Some (js ''Monitoring cycle complete''), False, False),
      (SrvDown, Some Idle, Some Idle, Some Idle, None, True, True),
      (SrvDown, Some Idle, Some Idle, Some Idle, None, True, True)]"
  using assms by (simp add: exec_defs run_timers.simps split del: if_split)

lemma scenario_prepare_then_completion_b:
  assumes "500 \<le> g1 + g2" "g1 + g2 < 1500" "1500 \<le> g1 + g2 + g3" "g3 < 1000"
  shows "map view (history (scenario g1 g2 g3)) =
     [(SrvUnknown, Some Idle, Some Idle, Some Idle, None, True, True),
      (SrvDown, Some Working, Some Idle, Some Idle, None, False, False),
      (SrvDown, Some Working, Some Idle, Some Idle, None, False, False),
      (SrvDown, Some Completed, Some Working, Some Idle, None, False, False),
      (SrvDown, Some Completed, Some Working, Some Idle, None, False, False),
      (SrvDown, Some Completed, Some Working, Some Working, None, False, False),
      (SrvDown, Some Completed, Some Working, Some Working, None, False, False),
      (SrvDown, Some Completed, Some Working, Some Working, None, False, False),
      (SrvDown, Some Completed, Some Working, Some Completed, None, False, False),
      (SrvDown, Some Completed, Some Completed, Some Completed, None, False, False),
      (SrvDown, Some Completed, Some Completed, Some Completed, Some (js ''Monitoring cycle complete''), False, False),
      (SrvDown, Some Idle, Some Idle, Some Idle, None, True, True),
      (SrvDown, Some Idle, Some Idle, Some Idle, None, True, True)]"
  using assms by (simp add: exec_defs run_timers.simps split del: if_split)

lemma scenario_prepare_then_completion_c:
  assumes "500 \<le> g1 + g2" "g1 + g2 + g3 < 1500"
  shows "map view (history (scenario g1 g2 g3)) =
     [(SrvUnknown, Some Idle, Some Idle, Some Idle, None, True, True),
      (SrvDown, Some Working, Some Idle, Some Idle, None, False, False),
      (SrvDown, Some Working, Some Idle, Some Idle, None, False, False),
      (SrvDown, Some Completed, Some Working, Some Idle, None, False, False),
      (SrvDown, Some Completed, Some Working, Some Idle, None, False, False),
      (SrvDown, Some Completed, Some Working, Some Working, None, False, False),
      (SrvDown, Some Completed, Some Working, Some Working, None, False, False),
      (SrvDown, Some Completed, Some Working, Some Completed, None, False, False),
      (SrvDown, Some Completed, Some Working, Some Completed, None, False, False),
      (SrvDown, Some Completed, Some Completed, Some Completed, None, False, False),
      (SrvDown, Some Completed, Some Completed, Some Completed, Some (js ''Monitoring cycle complete''), False, False),
      (SrvDown, Some Idle, Some Idle, Some Idle, None, True, True),
      (SrvDown, Some Idle, Some Idle, Some Idle, None, True, True)]"
  using assms by (simp add: exec_defs run_timers.simps split del: if_split)

lemma history_nonempty: "history steps \<noteq> []"
  by (simp add: history_def)

lemma view_projections:
  "map serverStatus h = map (\<lambda>(srv, sup, exe, eva, wf, quiet, idle). srv) (map view h)"
  "map (status_of (js ''supervisor'')) h = map (\<lambda>(srv, sup, exe, eva, wf, quiet, idle). sup) (map view h)"
  "map (status_of (js ''executor'')) h = map (\<lambda>(srv, sup, exe, eva, wf, quiet, idle). exe) (map view h)"
  "map (status_of (js ''evaluator'')) h = map (\<lambda>(srv, sup, exe, eva, wf, quiet, idle). eva) (map view h)"
  "map currentWorkflow h = map (\<lambda>(srv, sup, exe, eva, wf, quiet, idle). wf) (map view h)"
  by (simp_all add: view_def)

lemma view_last:
  "h \<noteq> [] \<Longrightarrow> (timers (last h) = []) = (\<lambda>(srv, sup, exe, eva, wf, quiet, idle). quiet) (last (map view h))"
  "h \<noteq> [] \<Longrightarrow> all_idle (last h) = (\<lambda>(srv, sup, exe, eva, wf, quiet, idle). idle) (last (map view h))"
  by (simp_all add: view_def last_map)

text \<open>
  C1. The four lines are fed in order from the initial state, any times \<open>g1\<close>,
  \<open>g2\<close>, \<open>g3\<close> apart, and every callback has run at the end. Then over the states
  of the run: the server status goes from unknown to down; supervisor and evaluator go
  idle, working, completed, idle; the executor goes idle, working, completed, idle (or
  once more through working before idle, when the third line comes less than 500 ms
  after the first, so that the late \<open>Preparing repair strategy\<close> callback runs after
  the executor completed); the workflow label is unset, then set, then unset; and in
  the last state no callback is pending and every agent is idle with its idle task.
\<close>

theorem scenario_outcome:
  "remdups_adj (map serverStatus (history (scenario g1 g2 g3))) = [SrvUnknown, SrvDown]
   \<and> remdups_adj (map (status_of (js ''supervisor'')) (history (scenario g1 g2 g3)))
       = [Some Idle, Some Working, Some Completed, Some Idle]
   \<and> remdups_adj (map (status_of (js ''executor'')) (history (scenario g1 g2 g3)))
       = (if 500 \<le> g1 + g2 then [Some Idle, Some Working, Some Completed, Some Idle]
          else [Some Idle, Some Working, Some Completed, Some Working, Some Idle])
   \<and> remdups_adj (map (status_of (js ''evaluator'')) (history (scenario g1 g2 g3)))
       = [Some Idle, Some Working, Some Completed, Some Idle]
   \<and> remdups_adj (map currentWorkflow (history (scenario g1 g2 g3)))
       = [None, Some (js ''Monitoring cycle complete''), None]
   \<and> timers (last (history (scenario g1 g2 g3))) = []
   \<and> all_idle (last (history (scenario g1 g2 g3)))"
proof -
  note p = view_projections view_last [OF history_nonempty]
  have w: "Some (js ''Monitoring cycle complete'') \<noteq> None" by simp
  consider
      (a1) "1500 \<le> g1" "1000 \<le> g3"
    | (a2) "1500 \<le> g1" "g3 < 1000"
    | (b1) "g1 < 1500" "1500 \<le> g1 + g2" "1000 \<le> g3"
    | (b2) "g1 < 1500" "1500 \<le> g1 + g2" "g3 < 1000"
    | (c1) "g1 + g2 < 500" "1500 \<le> g1 + g2 + g3"
    | (c2) "g1 + g2 < 500" "1000 \<le> g3" "g1 + g2 + g3 < 1500"
    | (c3) "g1 + g2 < 500" "g3 < 1000"
    | (d1) "500 \<le> g1 + g2" "g1 + g2 < 1500" "1000 \<le> g3"
    | (d2) "500 \<le> g1 + g2" "g1 + g2 < 1500" "1500 \<le> g1 + g2 + g3" "g3 < 1000"
    | (d3) "500 \<le> g1 + g2" "g1 + g2 + g3 < 1500"
    by linarith
  then show ?thesis
  proof cases
    case a1
    then show ?thesis unfolding p scenario_prepare_in_gap1_a [OF a1] by simp
  next
    case a2
    then show ?thesis unfolding p scenario_prepare_in_gap1_b [OF a2] by simp
  next
    case b1
    then show ?thesis unfolding p scenario_prepare_in_gap2_a [OF b1] by simp
  next
    case b2
    then show ?thesis unfolding p scenario_prepare_in_gap2_b [OF b2] by simp
  next
    case c1
    then show ?thesis unfolding p scenario_completion_first_a [OF c1] by simp
  next
    case c2
    then show ?thesis unfolding p scenario_completion_first_b [OF c2] by simp
  next
    case c3
    then show ?thesis unfolding p scenario_completion_first_c [OF c3] by simp
  next
    case d1
    then show ?thesis unfolding p scenario_prepare_then_completion_a [OF d1] by simp
  next
    case d2
    then show ?thesis unfolding p scenario_prepare_then_completion_b [OF d2] by simp
  next
    case d3
    then show ?thesis unfolding p scenario_prepare_then_completion_c [OF d3] by simp
  qed
qed

end
